theory Spec2Isabelle
  imports Complex_Main "HOL-Library.Sublist" "HOL-Library.AList"
begin

section \<open>LAMMPS data files: an embedding of pymatgen/io/lammps/data.py\<close>

text \<open>
  The module builds the records of a LAMMPS data file from molecules, topologies and a
  force field, writes them as text and reads such a text back. Python values are
  modelled as follows.
  \<^item> A value stored in a row of a table is a Python int or a Python float. Floats are
    kept abstract (a type variable \<open>'f\<close>); the two builtins the module applies to them,
    \<^verbatim>\<open>str\<close> and \<^verbatim>\<open>float\<close>, are parameters of the writer and of the parser.
  \<^item> Every \<^verbatim>\<open>raise\<close> of the source and every exception of a builtin it calls is a
    value \<open>Inl e\<close> of the result type.
  \<^item> Text is ASCII; a file is the list of its lines, each with its newline.
\<close>

subsection \<open>Values, errors\<close>

datatype error = AttributeError | IndexError | KeyError | TypeError | ValueError
  | UnboundLocalError

datatype 'f pyval = PInt int | PFloat 'f

definition ebind :: "error + 'a \<Rightarrow> ('a \<Rightarrow> error + 'b) \<Rightarrow> error + 'b" where
  "ebind m f = (case m of Inl e \<Rightarrow> Inl e | Inr x \<Rightarrow> f x)"

text \<open>\<^verbatim>\<open>xs[i]\<close>: a negative index counts from the end, an index out of range raises.\<close>

definition py_index :: "'a list \<Rightarrow> int \<Rightarrow> error + 'a" where
  "py_index xs i =
     (if 0 \<le> i \<and> i < int (length xs) then Inr (xs ! nat i)
      else if i < 0 \<and> - int (length xs) \<le> i then Inr (xs ! nat (int (length xs) + i))
      else Inl IndexError)"

text \<open>\<^verbatim>\<open>range(n)\<close> for a Python int \<open>n\<close>: empty when \<open>n \<le> 0\<close>.\<close>

definition py_range :: "int \<Rightarrow> int list" where
  "py_range n = map int [0 ..< nat n]"

subsection \<open>The two records\<close>

text \<open>
  \<^verbatim>\<open>LammpsData.__init__\<close> and \<^verbatim>\<open>LammpsForceFieldData.__init__\<close>. The subclass calls the
  constructor of the base class and adds its own fields, so the force-field record
  extends the basic one.
\<close>

record 'f lammps_data =
  box_size :: "'f pyval list list"
  natoms :: nat
  natom_types :: nat
  atomic_masses :: "'f pyval list list"
  atoms_data :: "'f pyval list list"

record 'f lammps_ff_data = "'f lammps_data" +
  nbond_types :: nat
  nangle_types :: nat
  ndih_types :: nat
  nimdih_types :: nat
  nbonds :: nat
  nangles :: nat
  ndih :: nat
  nimdihs :: nat
  pair_coeffs :: "'f pyval list list"
  bond_coeffs :: "'f pyval list list"
  angle_coeffs :: "'f pyval list list"
  dihedral_coeffs :: "'f pyval list list"
  improper_coeffs :: "'f pyval list list"
  bonds_data :: "'f pyval list list"
  angles_data :: "'f pyval list list"
  dihedrals_data :: "'f pyval list list"
  imdihedrals_data :: "'f pyval list list"

definition LammpsData_init ::
  "'f pyval list list \<Rightarrow> 'f pyval list list \<Rightarrow> 'f pyval list list \<Rightarrow> 'f lammps_data" where
  "LammpsData_init box masses atoms =
     \<lparr> box_size = box,
       natoms = length atoms,
       natom_types = length masses,
       atomic_masses = masses,
       atoms_data = atoms \<rparr>"

definition LammpsForceFieldData_init ::
  "'f pyval list list \<Rightarrow> 'f pyval list list \<Rightarrow> 'f pyval list list \<Rightarrow> 'f pyval list list
   \<Rightarrow> 'f pyval list list \<Rightarrow> 'f pyval list list \<Rightarrow> 'f pyval list list \<Rightarrow> 'f pyval list list
   \<Rightarrow> 'f pyval list list \<Rightarrow> 'f pyval list list \<Rightarrow> 'f pyval list list \<Rightarrow> 'f pyval list list
   \<Rightarrow> 'f lammps_ff_data" where
  "LammpsForceFieldData_init box masses pairc bondc anglec dihc impc atoms bonds angles
       dihs imdihs =
     lammps_data.extend (LammpsData_init box masses atoms)
       \<lparr> nbond_types = length bondc,
         nangle_types = length anglec,
         ndih_types = length dihc,
         nimdih_types = length impc,
         nbonds = length bonds,
         nangles = length angles,
         ndih = length dihs,
         nimdihs = length imdihs,
         pair_coeffs = pairc,
         bond_coeffs = bondc,
         angle_coeffs = anglec,
         dihedral_coeffs = dihc,
         improper_coeffs = impc,
         bonds_data = bonds,
         angles_data = angles,
         dihedrals_data = dihs,
         imdihedrals_data = imdihs \<rparr>"

subsection \<open>Coefficient tables from a force field\<close>

text \<open>
  The class \<^verbatim>\<open>ForceField\<close> is not part of this module. Of a force field the module only
  uses \<^verbatim>\<open>hasattr\<close> and \<^verbatim>\<open>getattr\<close> on a family name and \<^verbatim>\<open>items()\<close> of the dictionary found
  there. A force field is therefore a partial map from attribute names to the item list
  of the dictionary, in iteration order; \<open>None\<close> is an attribute the object does not have.
  A label is a tuple of atom names.
\<close>

type_synonym label = "string list"
type_synonym 'f param_dict = "(label \<times> 'f list) list"
type_synonym 'f forcefield = "string \<rightharpoonup> 'f param_dict"

text \<open>The loop of \<^verbatim>\<open>get_param_coeff\<close>: \<open>i\<close> is the index \<^verbatim>\<open>enumerate\<close> supplies.\<close>

fun param_coeff_loop ::
  "nat \<Rightarrow> 'f param_dict \<Rightarrow> 'f pyval list list \<Rightarrow> (label \<rightharpoonup> int)
   \<Rightarrow> 'f pyval list list \<times> (label \<rightharpoonup> int)" where
  "param_coeff_loop i [] param_coeffs param_map = (param_coeffs, param_map)"
| "param_coeff_loop i (item # items) param_coeffs param_map =
     param_coeff_loop (Suc i) items
       (param_coeffs @ [PInt (int i + 1) # map PFloat (snd item)])
       (param_map(fst item \<mapsto> int i + 1))"

definition get_param_coeff ::
  "'f forcefield \<Rightarrow> string \<Rightarrow> error + ('f pyval list list \<times> (label \<rightharpoonup> int))" where
  "get_param_coeff forcefield param_name =
     (case forcefield param_name of
        Some param \<Rightarrow>
          Inr (if param \<noteq> [] then param_coeff_loop 0 param [] Map.empty
               else ([], Map.empty))
      | None \<Rightarrow> Inl AttributeError)"

subsection \<open>Molecules and topologies\<close>


type_synonym interaction = "int list \<times> label"

record 'f topology =
  bonds :: "interaction list option"
  angles :: "interaction list option"
  dihedrals :: "interaction list option"
  imdihedrals :: "interaction list option"
  charges :: "'f list option"

definition getattr_topology :: "'f topology \<Rightarrow> string \<Rightarrow> interaction list option" where
  "getattr_topology t param_name =
     (if param_name = ''bonds'' then bonds t
      else if param_name = ''angles'' then angles t
      else if param_name = ''dihedrals'' then dihedrals t
      else if param_name = ''imdihedrals'' then imdihedrals t
      else None)"

subsection \<open>Atom records of an assembly: \<^verbatim>\<open>LammpsForceFieldData.get_atoms_data\<close>\<close>









subsection \<open>Bonded records of an assembly: \<^verbatim>\<open>LammpsForceFieldData.get_param_data\<close>\<close>

text \<open>
  The first loop nest fills the dictionary \<^verbatim>\<open>param_to_mol\<close>. A dictionary keeps its keys
  in the order of their first insertion, so it is an association list updated in place.
\<close>

type_synonym pinfo = "nat \<times> nat \<times> nat"

definition param_loop ::
  "nat \<Rightarrow> nat \<Rightarrow> nat \<Rightarrow> nat \<Rightarrow> nat \<Rightarrow> (nat \<times> pinfo) list \<Rightarrow> (nat \<times> pinfo) list" where
  "param_loop mol_id mol_type num_mol_id nparams shift param_to_mol =
     fold (\<lambda>mol_param_id p2m.
             let param_id = num_mol_id * nparams + mol_param_id + shift
             in AList.update param_id (mol_id - 1, mol_type, mol_param_id) p2m)
          [0 ..< nparams] param_to_mol"

definition param_replica_loop ::
  "nat \<Rightarrow> nat \<Rightarrow> nat \<Rightarrow> nat \<Rightarrow> nat \<times> (nat \<times> pinfo) list \<Rightarrow> nat \<times> (nat \<times> pinfo) list" where
  "param_replica_loop mol_type nparams shift count st =
     fold (\<lambda>num_mol_id (mol_id, p2m).
             let mol_id' = mol_id + 1
             in (mol_id', param_loop mol_id' mol_type num_mol_id nparams shift p2m))
          [0 ..< count] st"

fun param_type_loop ::
  "string \<Rightarrow> nat list \<Rightarrow> 'f topology list \<Rightarrow> nat list
   \<Rightarrow> nat \<times> nat \<times> (nat \<times> pinfo) list
   \<Rightarrow> error + (nat \<times> nat \<times> (nat \<times> pinfo) list)" where
  "param_type_loop param_name mols_number topologies [] st = Inr st"
| "param_type_loop param_name mols_number topologies (mol_type # rest)
       (mol_id, shift, p2m) =
     ebind (py_index topologies (int mol_type)) (\<lambda>t.
       case getattr_topology t param_name of
         None \<Rightarrow> Inl AttributeError
       | Some param_obj \<Rightarrow>
           let nparams = length param_obj
           in ebind (py_index mols_number (int mol_type)) (\<lambda>count.
                let (mol_id', p2m') =
                      param_replica_loop mol_type nparams shift count (mol_id, p2m)
                in param_type_loop param_name mols_number topologies rest
                     (mol_id', shift + nparams * count, p2m')))"

text \<open>
  The choice of the key: the label as given, else the label reversed, else \<^verbatim>\<open>None\<close>.
\<close>

definition param_key :: "(label \<rightharpoonup> int) \<Rightarrow> label \<Rightarrow> label option" where
  "param_key param_map param_type =
     (let param_type_reversed = rev param_type
      in if param_map param_type \<noteq> None then Some param_type
         else if param_map param_type_reversed \<noteq> None then Some param_type_reversed
         else None)"

text \<open>\<^verbatim>\<open>if key:\<close> is the truth value of the key: \<^verbatim>\<open>None\<close> and the empty tuple are false.\<close>

definition truthy_key :: "label option \<Rightarrow> bool" where
  "truthy_key key = (case key of None \<Rightarrow> False | Some k \<Rightarrow> k \<noteq> [])"

text \<open>The local atom ids of an interaction, made global ids (counted from 1).\<close>

fun param_atomids :: "nat list list \<Rightarrow> nat \<Rightarrow> int list \<Rightarrow> error + int list" where
  "param_atomids molid_to_atomid mol_id [] = Inr []"
| "param_atomids molid_to_atomid mol_id (atomid # atomids) =
     ebind (py_index molid_to_atomid (int mol_id)) (\<lambda>ids.
       ebind (py_index ids atomid) (\<lambda>global_atom_id.
         ebind (param_atomids molid_to_atomid mol_id atomids) (\<lambda>rest.
           Inr ((int global_atom_id + 1) # rest))))"

text \<open>
  The body of the second loop, for one item of \<^verbatim>\<open>param_to_mol\<close>. The state is the
  counter \<^verbatim>\<open>skip\<close> and the list \<^verbatim>\<open>param_data\<close>.
\<close>

definition param_step ::
  "string \<Rightarrow> (label \<rightharpoonup> int) \<Rightarrow> 'f topology list \<Rightarrow> nat list list
   \<Rightarrow> nat \<times> pinfo \<Rightarrow> nat \<times> int list list \<Rightarrow> error + (nat \<times> int list list)" where
  "param_step param_name param_map topologies molid_to_atomid item st =
     (case item of (param_id, mol_id, mol_type, mol_param_id) \<Rightarrow>
      case st of (skip, param_data) \<Rightarrow>
        ebind (py_index topologies (int mol_type)) (\<lambda>t.
          case getattr_topology t param_name of
            None \<Rightarrow> Inl AttributeError
          | Some param_obj \<Rightarrow>
              ebind (py_index param_obj (int mol_param_id)) (\<lambda>param.
                ebind (param_atomids molid_to_atomid mol_id (fst param)) (\<lambda>atomids.
                  let param_type = snd param;
                      key = param_key param_map param_type
                  in if truthy_key key then
                       (case param_map (the key) of
                          None \<Rightarrow> Inl KeyError
                        | Some param_type_id \<Rightarrow>
                            Inr (skip,
                                 param_data @
                                 [[int param_id + 1 - int skip, param_type_id]
                                  @ atomids]))
                     else Inr (skip + 1, param_data)))))"

fun param_item_loop ::
  "string \<Rightarrow> (label \<rightharpoonup> int) \<Rightarrow> 'f topology list \<Rightarrow> nat list list
   \<Rightarrow> (nat \<times> pinfo) list \<Rightarrow> nat \<times> int list list \<Rightarrow> error + (nat \<times> int list list)" where
  "param_item_loop param_name param_map topologies molid_to_atomid [] st = Inr st"
| "param_item_loop param_name param_map topologies molid_to_atomid (item # items) st =
     ebind (param_step param_name param_map topologies molid_to_atomid item st)
       (param_item_loop param_name param_map topologies molid_to_atomid items)"

text \<open>The dictionary \<^verbatim>\<open>param_to_mol\<close> of the interactions the first loop nest enumerates.\<close>

definition param_to_mol ::
  "string \<Rightarrow> 's list list \<Rightarrow> nat list \<Rightarrow> 'f topology list \<Rightarrow> error + (nat \<times> pinfo) list" where
  "param_to_mol param_name mols mols_number topologies =
     ebind (param_type_loop param_name mols_number topologies [0 ..< length mols]
              (0, 0, []))
       (\<lambda>(mol_id, shift, p2m). Inr p2m)"

definition get_param_data ::
  "string \<Rightarrow> (label \<rightharpoonup> int) \<Rightarrow> 's list list \<Rightarrow> nat list \<Rightarrow> 'f topology list
   \<Rightarrow> nat list list \<Rightarrow> error + int list list" where
  "get_param_data param_name param_map mols mols_number topologies molid_to_atomid =
     (case topologies of
        [] \<Rightarrow> Inl IndexError
      | t0 # _ \<Rightarrow>
          (case getattr_topology t0 param_name of
             Some (p # ps) \<Rightarrow>
               ebind (param_to_mol param_name mols mols_number topologies) (\<lambda>p2m.
                 ebind (param_item_loop param_name param_map topologies molid_to_atomid
                          p2m (0, []))
                   (\<lambda>(skip, param_data). Inr param_data))
           | _ \<Rightarrow> Inr []))"




definition item_label :: "string \<Rightarrow> 'f topology list \<Rightarrow> nat \<times> pinfo \<Rightarrow> label" where
  "item_label param_name topologies item =
     (case item of (param_id, mol_id, mol_type, mol_param_id) \<Rightarrow>
        snd (the (getattr_topology (topologies ! mol_type) param_name) ! mol_param_id))"

definition unresolved :: "(label \<rightharpoonup> int) \<Rightarrow> label \<Rightarrow> bool" where
  "unresolved param_map l \<longleftrightarrow> param_map l = None \<and> param_map (rev l) = None"

fun emitted_ids :: "(nat \<times> pinfo \<Rightarrow> bool) \<Rightarrow> (nat \<times> pinfo) list \<Rightarrow> nat \<Rightarrow> int list" where
  "emitted_ids U [] skip = []"
| "emitted_ids U (item # items) skip =
     (if U item then emitted_ids U items (Suc skip)
      else (int (fst item) + 1 - int skip) # emitted_ids U items skip)"

subsection \<open>Text: characters, numerals, lines\<close>

text \<open>
  The builtins of Python 3 the module applies to text, on ASCII characters.
  \<open>is_space\<close> is the class of \<^verbatim>\<open>\s\<close> and of \<^verbatim>\<open>str.split()\<close>, \<open>is_digit\<close> the class \<^verbatim>\<open>\d\<close>,
  \<open>is_word\<close> the class \<^verbatim>\<open>\w\<close>.
\<close>

definition is_space :: "char \<Rightarrow> bool" where
  "is_space c \<longleftrightarrow>
     c \<in> set [CHR '' '', CHR 0x09, CHR 0x0A, CHR 0x0B, CHR 0x0C, CHR 0x0D,
                CHR 0x1C, CHR 0x1D, CHR 0x1E, CHR 0x1F]"

definition is_digit :: "char \<Rightarrow> bool" where
  "is_digit c \<longleftrightarrow> c \<in> set ''0123456789''"

definition is_alpha :: "char \<Rightarrow> bool" where
  "is_alpha c \<longleftrightarrow>
     c \<in> set ''abcdefghijklmnopqrstuvwxyz'' \<or> c \<in> set ''ABCDEFGHIJKLMNOPQRSTUVWXYZ''"

definition is_word :: "char \<Rightarrow> bool" where
  "is_word c \<longleftrightarrow> is_alpha c \<or> is_digit c \<or> c = CHR ''_''"

text \<open>The class \<^verbatim>\<open>[0-9eE\.+-]\<close> of the number groups and the class \<^verbatim>\<open>[0-9\.]\<close>.\<close>

definition is_num_char :: "char \<Rightarrow> bool" where
  "is_num_char c \<longleftrightarrow> is_digit c \<or> c \<in> set ''eE.+-''"

definition is_mass_char :: "char \<Rightarrow> bool" where
  "is_mass_char c \<longleftrightarrow> is_digit c \<or> c = CHR ''.''"



text \<open>\<^verbatim>\<open>sub in s\<close> for strings.\<close>

fun contains :: "string \<Rightarrow> string \<Rightarrow> bool" where
  "contains sub [] = (sub = [])"
| "contains sub (c # cs) = (prefix sub (c # cs) \<or> contains sub cs)"

text \<open>\<^verbatim>\<open>sep.join(xs)\<close>.\<close>

fun join :: "string \<Rightarrow> string list \<Rightarrow> string" where
  "join sep [] = []"
| "join sep [x] = x"
| "join sep (x # y # ys) = x @ sep @ join sep (y # ys)"

text \<open>
  \<^verbatim>\<open>s.split()\<close>: the maximal runs of characters that are not white space. \<open>cur\<close> is the
  run being read.
\<close>

fun split_acc :: "string \<Rightarrow> string \<Rightarrow> string list" where
  "split_acc cur [] = (if cur = [] then [] else [cur])"
| "split_acc cur (c # cs) =
     (if is_space c then (if cur = [] then split_acc [] cs else cur # split_acc [] cs)
      else split_acc (cur @ [c]) cs)"

definition split_ws :: "string \<Rightarrow> string list" where
  "split_ws s = split_acc [] s"



text \<open>\<^verbatim>\<open>str(n)\<close> and \<^verbatim>\<open>int(s)\<close> for integers, in decimal.\<close>

definition digit_char :: "nat \<Rightarrow> char" where
  "digit_char d = ''0123456789'' ! d"

definition digit_val :: "char \<Rightarrow> nat" where
  "digit_val c = length (takeWhile (\<lambda>d. d \<noteq> c) ''0123456789'')"

function str_nat :: "nat \<Rightarrow> string" where
  "str_nat n = (if n < 10 then [digit_char n] else str_nat (n div 10) @ [digit_char (n mod 10)])"
  by pat_completeness auto

termination
  by (relation "measure id") auto

declare str_nat.simps [simp del]

definition str_int :: "int \<Rightarrow> string" where
  "str_int i = (if i < 0 then CHR ''-'' # str_nat (nat (- i)) else str_nat (nat i))"

definition nat_of_digits :: "string \<Rightarrow> nat" where
  "nat_of_digits s = foldl (\<lambda>a c. 10 * a + digit_val c) 0 s"

text \<open>
  \<^verbatim>\<open>int(s)\<close> on a token: an optional sign, then digits, single underscores allowed between
  digits. \<open>None\<close> is ValueError.
\<close>

definition int_body_ok :: "string \<Rightarrow> bool" where
  "int_body_ok s \<longleftrightarrow>
     s \<noteq> [] \<and> is_digit (hd s) \<and> is_digit (last s) \<and>
     (\<forall>c \<in> set s. is_digit c \<or> c = CHR ''_'') \<and> \<not> contains ''__'' s"

definition py_int :: "string \<Rightarrow> int option" where
  "py_int s =
     (let negative = (s \<noteq> [] \<and> hd s = CHR ''-'');
          body = (if s \<noteq> [] \<and> (hd s = CHR ''-'' \<or> hd s = CHR ''+'') then tl s else s)
      in if int_body_ok body
         then Some ((if negative then - 1 else 1) * int (nat_of_digits (filter is_digit body)))
         else None)"

text \<open>\<^verbatim>\<open>str(x)\<close> of a value of a row; \<open>sf\<close> is \<^verbatim>\<open>str\<close> on floats.\<close>

fun py_str :: "('f \<Rightarrow> string) \<Rightarrow> 'f pyval \<Rightarrow> string" where
  "py_str sf (PInt i) = str_int i"
| "py_str sf (PFloat v) = sf v"

subsection \<open>The writer: \<^verbatim>\<open>__str__\<close>\<close>

definition set_lines_from_list ::
  "('f \<Rightarrow> string) \<Rightarrow> string list \<Rightarrow> string \<Rightarrow> 'f pyval list list \<Rightarrow> string list" where
  "set_lines_from_list sf lines block_name input_list =
     (if input_list \<noteq> [] then
        lines @ [''\<newline>'' @ block_name @ '' \<newline>'']
          @ map (\<lambda>ad. join '' '' (map (py_str sf) ad)) input_list
      else lines)"

text \<open>
  The three lines of the box, \<^verbatim>\<open>"{} {} xlo xhi\n{} {} ylo yhi\n{} {} zlo zhi".format(...)\<close>;
  each of the six values is \<^verbatim>\<open>box_size[i][j]\<close>.
\<close>

definition box_entry :: "('f \<Rightarrow> string) \<Rightarrow> 'f pyval list list \<Rightarrow> int \<Rightarrow> int \<Rightarrow> error + string" where
  "box_entry sf box i j =
     ebind (py_index box i) (\<lambda>side. ebind (py_index side j) (\<lambda>v. Inr (py_str sf v)))"

definition box_text :: "('f \<Rightarrow> string) \<Rightarrow> 'f pyval list list \<Rightarrow> error + string" where
  "box_text sf box =
     ebind (box_entry sf box 0 0) (\<lambda>x0. ebind (box_entry sf box 0 1) (\<lambda>x1.
     ebind (box_entry sf box 1 0) (\<lambda>y0. ebind (box_entry sf box 1 1) (\<lambda>y1.
     ebind (box_entry sf box 2 0) (\<lambda>z0. ebind (box_entry sf box 2 1) (\<lambda>z1.
       Inr (x0 @ '' '' @ x1 @ '' xlo xhi\<newline>'' @ y0 @ '' '' @ y1 @ '' ylo yhi\<newline>''
            @ z0 @ '' '' @ z1 @ '' zlo zhi'')))))))"

text \<open>\<^verbatim>\<open>LammpsData.__str__\<close>.\<close>

definition str_data :: "('f \<Rightarrow> string) \<Rightarrow> ('f, 'z) lammps_data_scheme \<Rightarrow> error + string" where
  "str_data sf r =
     (let lines = [''Data file generated by pymatgen\<newline>''];
          lines = lines @ [str_nat (natoms r) @ '' atoms\<newline>''];
          lines = lines @ [str_nat (natom_types r) @ '' atom types\<newline>'']
      in ebind (box_text sf (box_size r)) (\<lambda>box.
           let lines = lines @ [box];
               lines = set_lines_from_list sf lines ''Masses'' (atomic_masses r);
               lines = set_lines_from_list sf lines ''Atoms'' (atoms_data r)
           in Inr (join ''\<newline>'' lines)))"

text \<open>
  \<^verbatim>\<open>LammpsForceFieldData.__str__\<close>: the list \<^verbatim>\<open>lines\<close> first, in three parts (the counts, the
  box, the blocks), then the text.
\<close>

definition ff_count_lines :: "'f lammps_ff_data \<Rightarrow> string list" where
  "ff_count_lines r =
     (let lines = [''Data file generated by pymatgen\<newline>''];
          lines = lines @ [str_nat (natoms r) @ '' atoms''];
          lines = lines @ [str_nat (nbonds r) @ '' bonds''];
          lines = lines @ [str_nat (nangles r) @ '' angles''];
          lines = (if ndih r > 0 then lines @ [str_nat (ndih r) @ '' dihedrals''] else lines);
          lines = (if nimdihs r > 0 then lines @ [str_nat (nimdihs r) @ '' impropers'']
                   else lines);
          lines = lines @ [''\<newline>'' @ str_nat (natom_types r) @ '' atom types''];
          lines = lines @ [str_nat (nbond_types r) @ '' bond types''];
          lines = lines @ [str_nat (nangle_types r) @ '' angle types''];
          lines = (if ndih r > 0 then lines @ [str_nat (ndih_types r) @ '' dihedral types'']
                   else lines);
          lines = (if nimdihs r > 0 then lines @ [str_nat (nimdih_types r) @ '' improper types'']
                   else lines)
      in lines)"

definition ff_block_lines :: "('f \<Rightarrow> string) \<Rightarrow> 'f lammps_ff_data \<Rightarrow> string list \<Rightarrow> string list" where
  "ff_block_lines sf r lines0 =
     (let lines = set_lines_from_list sf lines0 ''Masses'' (atomic_masses r);
          lines = set_lines_from_list sf lines ''Pair Coeffs'' (pair_coeffs r);
          lines = set_lines_from_list sf lines ''Bond Coeffs'' (bond_coeffs r);
          lines = set_lines_from_list sf lines ''Angle Coeffs'' (angle_coeffs r);
          lines = (if ndih r > 0
                   then set_lines_from_list sf lines ''Dihedral Coeffs'' (dihedral_coeffs r)
                   else lines);
          lines = (if nimdihs r > 0
                   then set_lines_from_list sf lines ''Improper Coeffs'' (improper_coeffs r)
                   else lines);
          lines = set_lines_from_list sf lines ''Atoms'' (atoms_data r);
          lines = set_lines_from_list sf lines ''Bonds'' (bonds_data r);
          lines = set_lines_from_list sf lines ''Angles'' (angles_data r);
          lines = (if ndih r > 0
                   then set_lines_from_list sf lines ''Dihedrals'' (dihedrals_data r)
                   else lines);
          lines = (if nimdihs r > 0
                   then set_lines_from_list sf lines ''Impropers'' (imdihedrals_data r)
                   else lines)
      in lines)"

definition ff_lines :: "('f \<Rightarrow> string) \<Rightarrow> 'f lammps_ff_data \<Rightarrow> error + string list" where
  "ff_lines sf r =
     ebind (box_text sf (box_size r)) (\<lambda>box.
       Inr (ff_block_lines sf r (ff_count_lines r @ [''\<newline>'' @ box])))"

definition str_ff_data :: "('f \<Rightarrow> string) \<Rightarrow> 'f lammps_ff_data \<Rightarrow> error + string" where
  "str_ff_data sf r = ebind (ff_lines sf r) (\<lambda>lines. Inr (join ''\<newline>'' lines))"

subsection \<open>Regular expressions\<close>

text \<open>
  The patterns of the module are sequences of: a class repeated (\<^verbatim>\<open>\s*\<close>, \<^verbatim>\<open>\s+\<close>), a
  group of a class repeated (\<^verbatim>\<open>(\d+)\<close>), one character of a class (\<^verbatim>\<open>[xyz]\<close>), a literal, and
  \<^verbatim>\<open>$\<close>. All begin with \<^verbatim>\<open>^\<close> and are used with \<^verbatim>\<open>search\<close>, so they match at the start of the
  line only. A repetition takes the longest run (it is greedy); in every pattern of the
  module a repeated class is disjoint from what may follow it, so no shorter run can
  match and matching needs no backtracking. \<^verbatim>\<open>$\<close> matches at the end of the line and before
  a newline that ends it. The result is the list of the groups.
\<close>

datatype re_item =
    Many0 "char \<Rightarrow> bool"
  | Many1 "char \<Rightarrow> bool"
  | Group "char \<Rightarrow> bool"
  | OneOf "char \<Rightarrow> bool"
  | Lit string
  | Eol

fun re_match :: "re_item list \<Rightarrow> string \<Rightarrow> string list option" where
  "re_match [] s = Some []"
| "re_match (Many0 P # r) s = re_match r (dropWhile P s)"
| "re_match (Many1 P # r) s =
     (if takeWhile P s = [] then None else re_match r (dropWhile P s))"
| "re_match (Group P # r) s =
     (if takeWhile P s = [] then None
      else map_option (\<lambda>gs. takeWhile P s # gs) (re_match r (dropWhile P s)))"
| "re_match (OneOf P # r) s =
     (case s of [] \<Rightarrow> None | c # cs \<Rightarrow> if P c then re_match r cs else None)"
| "re_match (Lit l # r) s =
     (if prefix l s then re_match r (drop (length l) s) else None)"
| "re_match (Eol # r) s = (if s = [] \<or> s = ''\<newline>'' then re_match r s else None)"

declare re_match.simps [simp del]

definition is_xyz :: "char \<Rightarrow> bool" where
  "is_xyz c \<longleftrightarrow> c \<in> set ''xyz''"

text \<open>The patterns of \<^verbatim>\<open>LammpsForceFieldData.from_file\<close>, in the order of the source.\<close>

definition types_pattern :: "re_item list" where
  "types_pattern =
     [Many0 is_space, Group is_digit, Many1 is_space, Group is_alpha, Many1 is_space,
      Lit ''types'', Eol]"

definition atoms_pattern :: "re_item list" where
  "atoms_pattern =
     [Many0 is_space, Group is_digit, Many1 is_space, Group is_digit, Many1 is_space,
      Group is_digit, Many1 is_space, Group is_num_char, Many1 is_space,
      Group is_num_char, Many1 is_space, Group is_num_char, Many1 is_space,
      Group is_num_char, Many0 is_word]"

definition masses_pattern :: "re_item list" where
  "masses_pattern = [Many0 is_space, Group is_digit, Many1 is_space, Group is_mass_char, Eol]"

definition box_pattern :: "re_item list" where
  "box_pattern =
     [Many0 is_space, Group is_num_char, Many1 is_space, Group is_num_char, Many1 is_space,
      OneOf is_xyz, Lit ''lo'', Many1 is_space, OneOf is_xyz, Lit ''hi'']"

definition general_coeff_pattern :: "re_item list" where
  "general_coeff_pattern =
     [Many0 is_space, Group is_digit, Many1 is_space, Group is_mass_char, Many1 is_space,
      Group is_mass_char, Eol]"

definition bond_data_pattern :: "re_item list" where
  "bond_data_pattern =
     [Many0 is_space, Group is_digit, Many1 is_space, Group is_digit, Many1 is_space,
      Group is_digit, Many1 is_space, Group is_digit, Many0 is_space, Eol]"

definition angle_data_pattern :: "re_item list" where
  "angle_data_pattern =
     [Many0 is_space, Group is_digit, Many1 is_space, Group is_digit, Many1 is_space,
      Group is_digit, Many1 is_space, Group is_digit, Many1 is_space, Group is_digit,
      Many0 is_space, Eol]"

definition dihedral_data_pattern :: "re_item list" where
  "dihedral_data_pattern =
     [Many0 is_space, Group is_digit, Many1 is_space, Group is_digit, Many1 is_space,
      Group is_digit, Many1 is_space, Group is_digit, Many1 is_space, Group is_digit,
      Many1 is_space, Group is_digit, Many0 is_space, Eol]"



subsection \<open>The parsers: \<^verbatim>\<open>from_file\<close>\<close>

text \<open>
  \<open>fl\<close> is \<^verbatim>\<open>float\<close> on a token (\<open>None\<close> is ValueError). \<^verbatim>\<open>int\<close> on a group of digits cannot
  fail.
\<close>

definition py_float :: "(string \<Rightarrow> 'f option) \<Rightarrow> string \<Rightarrow> error + 'f pyval" where
  "py_float fl s = (case fl s of None \<Rightarrow> Inl ValueError | Some v \<Rightarrow> Inr (PFloat v))"

fun py_floats :: "(string \<Rightarrow> 'f option) \<Rightarrow> string list \<Rightarrow> error + 'f pyval list" where
  "py_floats fl [] = Inr []"
| "py_floats fl (s # ss) =
     ebind (py_float fl s) (\<lambda>v. ebind (py_floats fl ss) (\<lambda>vs. Inr (v # vs)))"

definition int_group :: "string \<Rightarrow> 'f pyval" where
  "int_group g = PInt (int (nat_of_digits g))"

text \<open>\<^verbatim>\<open>[int(tokens[0])] + [float(i) for i in tokens[1:]]\<close>, for a non-empty list of tokens.\<close>

definition token_row :: "(string \<Rightarrow> 'f option) \<Rightarrow> string list \<Rightarrow> error + 'f pyval list" where
  "token_row fl tokens =
     (case py_int (hd tokens) of
        None \<Rightarrow> Inl ValueError
      | Some i \<Rightarrow> ebind (py_floats fl (tl tokens)) (\<lambda>vs. Inr (PInt i # vs)))"

text \<open>
  The local variables of \<^verbatim>\<open>LammpsForceFieldData.from_file\<close>. The counts of types are bound
  by the first line of counts that names them; \<open>None\<close> is a variable not yet bound.
\<close>

record 'f pstate =
  st_atomic_masses :: "'f pyval list list"
  st_box_size :: "'f pyval list list"
  st_pair_coeffs :: "'f pyval list list"
  st_bond_coeffs :: "'f pyval list list"
  st_angle_coeffs :: "'f pyval list list"
  st_dihedral_coeffs :: "'f pyval list list"
  st_improper_coeffs :: "'f pyval list list"
  st_atoms_data :: "'f pyval list list"
  st_bonds_data :: "'f pyval list list"
  st_angles_data :: "'f pyval list list"
  st_dihedral_data :: "'f pyval list list"
  st_imdihedral_data :: "'f pyval list list"
  read_pair_coeffs :: bool
  read_bond_coeffs :: bool
  read_angle_coeffs :: bool
  read_dihedral_coeffs :: bool
  read_improper_coeffs :: bool
  st_natom_types :: "nat option"
  npair_types :: "nat option"
  st_nbond_types :: "nat option"
  st_nangle_types :: "nat option"
  ndihedral_types :: "nat option"
  nimproper_types :: "nat option"


text \<open>The line of counts of types: five tests of the name, one after the other.\<close>

definition read_types :: "'f pstate \<Rightarrow> string \<Rightarrow> 'f pstate" where
  "read_types st line =
     (case re_match types_pattern line of
        Some [g1, g2] \<Rightarrow>
          (let st = (if g2 = ''atom''
                     then st\<lparr>st_natom_types := Some (nat_of_digits g1),
                             npair_types := Some (nat_of_digits g1)\<rparr>
                     else st);
               st = (if g2 = ''bond'' then st\<lparr>st_nbond_types := Some (nat_of_digits g1)\<rparr>
                     else st);
               st = (if g2 = ''angle'' then st\<lparr>st_nangle_types := Some (nat_of_digits g1)\<rparr>
                     else st);
               st = (if g2 = ''dihedral'' then st\<lparr>ndihedral_types := Some (nat_of_digits g1)\<rparr>
                     else st);
               st = (if g2 = ''improper'' then st\<lparr>nimproper_types := Some (nat_of_digits g1)\<rparr>
                     else st)
           in st)
      | _ \<Rightarrow> st)"

definition read_masses :: "(string \<Rightarrow> 'f option) \<Rightarrow> 'f pstate \<Rightarrow> string \<Rightarrow> error + 'f pstate" where
  "read_masses fl st line =
     (case re_match masses_pattern line of
        Some [g1, g2] \<Rightarrow>
          ebind (py_float fl g2) (\<lambda>m.
            Inr (st\<lparr>st_atomic_masses := st_atomic_masses st @ [[int_group g1, m]]\<rparr>))
      | _ \<Rightarrow> Inr st)"

definition read_box :: "(string \<Rightarrow> 'f option) \<Rightarrow> 'f pstate \<Rightarrow> string \<Rightarrow> error + 'f pstate" where
  "read_box fl st line =
     (case re_match box_pattern line of
        Some [g1, g2] \<Rightarrow>
          ebind (py_float fl g1) (\<lambda>lo. ebind (py_float fl g2) (\<lambda>hi.
            Inr (st\<lparr>st_box_size := st_box_size st @ [[lo, hi]]\<rparr>)))
      | _ \<Rightarrow> Inr st)"

text \<open>
  A section of coefficients read by tokens (pairs, dihedrals, impropers): a line that is
  not blank is a row; reading stops when the table has as many rows as the count, which
  must be bound.
\<close>

definition still_reading :: "nat \<Rightarrow> nat option \<Rightarrow> error + bool" where
  "still_reading len count =
     (case count of None \<Rightarrow> Inl UnboundLocalError | Some n \<Rightarrow> Inr (\<not> len \<ge> n))"

definition read_pair :: "(string \<Rightarrow> 'f option) \<Rightarrow> 'f pstate \<Rightarrow> string \<Rightarrow> error + 'f pstate" where
  "read_pair fl st line =
     (if read_pair_coeffs st then
        (let tokens = split_ws line
         in if tokens \<noteq> [] then
              ebind (token_row fl tokens) (\<lambda>row.
                let st = st\<lparr>st_pair_coeffs := st_pair_coeffs st @ [row]\<rparr>
                in ebind (still_reading (length (st_pair_coeffs st)) (npair_types st)) (\<lambda>b.
                     Inr (st\<lparr>read_pair_coeffs := b\<rparr>)))
            else Inr st)
      else Inr st)"

definition read_dihedral :: "(string \<Rightarrow> 'f option) \<Rightarrow> 'f pstate \<Rightarrow> string \<Rightarrow> error + 'f pstate" where
  "read_dihedral fl st line =
     (if read_dihedral_coeffs st then
        (let tokens = split_ws line
         in if tokens \<noteq> [] then
              ebind (token_row fl tokens) (\<lambda>row.
                let st = st\<lparr>st_dihedral_coeffs := st_dihedral_coeffs st @ [row]\<rparr>
                in ebind (still_reading (length (st_dihedral_coeffs st)) (ndihedral_types st))
                     (\<lambda>b. Inr (st\<lparr>read_dihedral_coeffs := b\<rparr>)))
            else Inr st)
      else Inr st)"

definition read_improper :: "(string \<Rightarrow> 'f option) \<Rightarrow> 'f pstate \<Rightarrow> string \<Rightarrow> error + 'f pstate" where
  "read_improper fl st line =
     (if read_improper_coeffs st then
        (let tokens = split_ws line
         in if tokens \<noteq> [] then
              ebind (token_row fl tokens) (\<lambda>row.
                let st = st\<lparr>st_improper_coeffs := st_improper_coeffs st @ [row]\<rparr>
                in ebind (still_reading (length (st_improper_coeffs st)) (nimproper_types st))
                     (\<lambda>b. Inr (st\<lparr>read_improper_coeffs := b\<rparr>)))
            else Inr st)
      else Inr st)"

text \<open>
  A section of coefficients read by the pattern of an id and two values (bonds, angles):
  a line that does not match is passed over.
\<close>

definition coeff_row :: "(string \<Rightarrow> 'f option) \<Rightarrow> string \<Rightarrow> (error + 'f pyval list) option" where
  "coeff_row fl line =
     (case re_match general_coeff_pattern line of
        Some [g1, g2, g3] \<Rightarrow>
          Some (ebind (py_float fl g2) (\<lambda>v1. ebind (py_float fl g3) (\<lambda>v2.
                  Inr [int_group g1, v1, v2])))
      | _ \<Rightarrow> None)"

definition read_bond :: "(string \<Rightarrow> 'f option) \<Rightarrow> 'f pstate \<Rightarrow> string \<Rightarrow> error + 'f pstate" where
  "read_bond fl st line =
     (if read_bond_coeffs st then
        (case coeff_row fl line of
           Some res \<Rightarrow>
             ebind res (\<lambda>row.
               let st = st\<lparr>st_bond_coeffs := st_bond_coeffs st @ [row]\<rparr>
               in ebind (still_reading (length (st_bond_coeffs st)) (st_nbond_types st)) (\<lambda>b.
                    Inr (st\<lparr>read_bond_coeffs := b\<rparr>)))
         | None \<Rightarrow> Inr st)
      else Inr st)"

definition read_angle :: "(string \<Rightarrow> 'f option) \<Rightarrow> 'f pstate \<Rightarrow> string \<Rightarrow> error + 'f pstate" where
  "read_angle fl st line =
     (if read_angle_coeffs st then
        (case coeff_row fl line of
           Some res \<Rightarrow>
             ebind res (\<lambda>row.
               let st = st\<lparr>st_angle_coeffs := st_angle_coeffs st @ [row]\<rparr>
               in ebind (still_reading (length (st_angle_coeffs st)) (st_nangle_types st)) (\<lambda>b.
                    Inr (st\<lparr>read_angle_coeffs := b\<rparr>)))
         | None \<Rightarrow> Inr st)
      else Inr st)"

text \<open>The record of an atom: three ints, then floats.\<close>

definition atom_line :: "(string \<Rightarrow> 'f option) \<Rightarrow> string list \<Rightarrow> error + 'f pyval list" where
  "atom_line fl groups =
     ebind (py_floats fl (drop 3 groups)) (\<lambda>vs. Inr (map int_group (take 3 groups) @ vs))"

definition read_atoms :: "(string \<Rightarrow> 'f option) \<Rightarrow> 'f pstate \<Rightarrow> string \<Rightarrow> error + 'f pstate" where
  "read_atoms fl st line =
     (case re_match atoms_pattern line of
        Some groups \<Rightarrow>
          ebind (atom_line fl groups) (\<lambda>line_data.
            Inr (st\<lparr>st_atoms_data := st_atoms_data st @ [line_data]\<rparr>))
      | None \<Rightarrow> Inr st)"

text \<open>The records of bonds, angles and dihedrals: only once an atom has been read.\<close>

definition read_bonded :: "'f pstate \<Rightarrow> string \<Rightarrow> 'f pstate" where
  "read_bonded st line =
     (let st = (case re_match bond_data_pattern line of
                  Some groups \<Rightarrow>
                    if st_atoms_data st \<noteq> []
                    then st\<lparr>st_bonds_data := st_bonds_data st @ [map int_group groups]\<rparr>
                    else st
                | None \<Rightarrow> st);
          st = (case re_match angle_data_pattern line of
                  Some groups \<Rightarrow>
                    if st_atoms_data st \<noteq> []
                    then st\<lparr>st_angles_data := st_angles_data st @ [map int_group groups]\<rparr>
                    else st
                | None \<Rightarrow> st);
          st = (case re_match dihedral_data_pattern line of
                  Some groups \<Rightarrow>
                    if st_atoms_data st \<noteq> []
                    then st\<lparr>st_dihedral_data := st_dihedral_data st @ [map int_group groups]\<rparr>
                    else st
                | None \<Rightarrow> st)
      in st)"




definition word :: "string \<Rightarrow> bool" where
  "word w \<longleftrightarrow> w \<noteq> [] \<and> (\<forall>c \<in> set w. \<not> is_space c)"

definition spaces :: "string \<Rightarrow> bool" where
  "spaces s \<longleftrightarrow> (\<forall>c \<in> set s. is_space c)"

definition stops :: "string \<Rightarrow> bool" where
  "stops rest \<longleftrightarrow> rest = [] \<or> \<not> is_space (hd rest)"

definition no_space :: "(char \<Rightarrow> bool) \<Rightarrow> bool" where
  "no_space P \<longleftrightarrow> (\<forall>c. P c \<longrightarrow> \<not> is_space c)"

definition line_end :: "string \<Rightarrow> bool" where
  "line_end e \<longleftrightarrow> e = [] \<or> e = ''\<newline>''"

definition block_lines :: "('f \<Rightarrow> string) \<Rightarrow> string \<Rightarrow> 'f pyval list list \<Rightarrow> string list" where
  "block_lines sf block_name input_list =
     (if input_list \<noteq> [] then
        [''\<newline>'' @ block_name @ '' \<newline>'']
          @ map (\<lambda>ad. join '' '' (map (py_str sf) ad)) input_list
      else [])"

definition ff_blocks :: "('f \<Rightarrow> string) \<Rightarrow> 'f lammps_ff_data \<Rightarrow> string list" where
  "ff_blocks sf r =
     block_lines sf ''Masses'' (atomic_masses r) @
     block_lines sf ''Pair Coeffs'' (pair_coeffs r) @
     block_lines sf ''Bond Coeffs'' (bond_coeffs r) @
     block_lines sf ''Angle Coeffs'' (angle_coeffs r) @
     (if ndih r > 0 then block_lines sf ''Dihedral Coeffs'' (dihedral_coeffs r) else []) @
     (if nimdihs r > 0 then block_lines sf ''Improper Coeffs'' (improper_coeffs r) else []) @
     block_lines sf ''Atoms'' (atoms_data r) @
     block_lines sf ''Bonds'' (bonds_data r) @
     block_lines sf ''Angles'' (angles_data r) @
     (if ndih r > 0 then block_lines sf ''Dihedrals'' (dihedrals_data r) else []) @
     (if nimdihs r > 0 then block_lines sf ''Impropers'' (imdihedrals_data r) else [])"

subsection \<open>\<^verbatim>\<open>LammpsData.from_file\<close>\<close>










section \<open>Properties\<close>

subsection \<open>Coefficient tables\<close>

lemma param_coeff_loop_fst:
  "fst (param_coeff_loop i items cs m) =
     cs @ map (\<lambda>(k, item). PInt (int k + 1) # map PFloat (snd item))
            (zip [i ..< i + length items] items)"
proof (induction items arbitrary: i cs m)
  case Nil
  show ?case by simp
next
  case (Cons item items)
  have "[i ..< i + length (item # items)] = i # [Suc i ..< Suc i + length items]"
    by (simp add: upt_rec)
  with Cons.IH [of "Suc i"] show ?case by simp
qed

lemma param_coeff_loop_snd_notin:
  "l \<notin> fst ` set items \<Longrightarrow> snd (param_coeff_loop i items cs m) l = m l"
  by (induction items arbitrary: i cs m) auto

lemma param_coeff_loop_snd:
  "distinct (map fst items) \<Longrightarrow> k < length items \<Longrightarrow>
   snd (param_coeff_loop i items cs m) (fst (items ! k)) = Some (int (i + k) + 1)"
proof (induction items arbitrary: i cs m k)
  case Nil
  then show ?case by simp
next
  case (Cons item items)
  show ?case
  proof (cases k)
    case 0
    with Cons.prems show ?thesis
      by (simp add: param_coeff_loop_snd_notin)
  next
    case (Suc j)
    with Cons.prems Cons.IH [of j "Suc i"] show ?thesis by simp
  qed
qed

lemma param_coeff_loop_dom:
  "dom (snd (param_coeff_loop i items cs m)) = dom m \<union> fst ` set items"
  by (induction items arbitrary: i cs m) auto

lemma param_coeff_loop_length:
  "length (fst (param_coeff_loop i items cs m)) = length cs + length items"
  by (simp add: param_coeff_loop_fst)

lemma param_coeff_loop_nth:
  "k < length items \<Longrightarrow>
   fst (param_coeff_loop 0 items [] m) ! k = PInt (int k + 1) # map PFloat (snd (items ! k))"
  by (simp add: param_coeff_loop_fst)

text \<open>
  C8. \<^verbatim>\<open>get_param_coeff\<close> raises (AttributeError) exactly when the force field does not
  have the family. A family that is present and empty gives an empty table and an empty
  map. For a family that is present, row \<open>k\<close> of the table is the id \<open>k + 1\<close> followed by
  the values of the \<open>k\<close>-th item, the map sends the label of the \<open>k\<close>-th item to \<open>k + 1\<close>,
  and it is defined on the labels of the dictionary only. (The keys of a dictionary are
  distinct.)
\<close>

theorem get_param_coeff_spec:
  "(get_param_coeff ff name = Inl AttributeError \<longleftrightarrow> ff name = None) \<and>
   ((\<exists>e. get_param_coeff ff name = Inl e) \<longleftrightarrow> ff name = None) \<and>
   (ff name = Some [] \<longrightarrow> get_param_coeff ff name = Inr ([], Map.empty)) \<and>
   (\<forall>items. ff name = Some items \<and> distinct (map fst items) \<longrightarrow>
      (\<exists>coeffs pmap. get_param_coeff ff name = Inr (coeffs, pmap) \<and>
         length coeffs = length items \<and>
         (\<forall>k < length items.
            coeffs ! k = PInt (int k + 1) # map PFloat (snd (items ! k)) \<and>
            pmap (fst (items ! k)) = Some (int k + 1)) \<and>
         dom pmap = fst ` set items))"
proof (intro conjI allI impI)
  show "get_param_coeff ff name = Inl AttributeError \<longleftrightarrow> ff name = None"
    by (simp add: get_param_coeff_def split: option.splits)
  show "(\<exists>e. get_param_coeff ff name = Inl e) \<longleftrightarrow> ff name = None"
    by (simp add: get_param_coeff_def split: option.splits)
  show "get_param_coeff ff name = Inr ([], Map.empty)" if "ff name = Some []"
    using that by (simp add: get_param_coeff_def)
next
  fix items
  assume a: "ff name = Some items \<and> distinct (map fst items)"
  obtain coeffs pmap where cp: "param_coeff_loop 0 items [] Map.empty = (coeffs, pmap)"
    by (cases "param_coeff_loop 0 items [] Map.empty")
  have g: "get_param_coeff ff name = Inr (coeffs, pmap)"
    using a cp by (cases items) (simp_all add: get_param_coeff_def)
  have len: "length coeffs = length items"
    using param_coeff_loop_length [of 0 items "[]" Map.empty] cp by simp
  have rows: "coeffs ! k = PInt (int k + 1) # map PFloat (snd (items ! k))"
    if "k < length items" for k
    using param_coeff_loop_nth [OF that, of Map.empty] cp by simp
  have ids: "pmap (fst (items ! k)) = Some (int k + 1)" if "k < length items" for k
    using param_coeff_loop_snd [of items k 0 "[]" Map.empty] a that cp by simp
  have d: "dom pmap = fst ` set items"
    using param_coeff_loop_dom [of 0 items "[]" Map.empty] cp by simp
  show "\<exists>coeffs pmap. get_param_coeff ff name = Inr (coeffs, pmap) \<and>
         length coeffs = length items \<and>
         (\<forall>k < length items.
            coeffs ! k = PInt (int k + 1) # map PFloat (snd (items ! k)) \<and>
            pmap (fst (items ! k)) = Some (int k + 1)) \<and>
         dom pmap = fst ` set items"
    using g len rows ids d by blast
qed
















theorem get_param_coeff_spec_witness:
  "[''bonds'' \<mapsto> [([''c'', ''h''], [340, 1]), ([''c'', ''c''], [300, 2 :: int])]] ''bonds''
     = Some [([''c'', ''h''], [340, 1]), ([''c'', ''c''], [300, 2])] \<and>
   distinct (map fst [([''c'', ''h''], [340, 1]), ([''c'', ''c''], [300, 2 :: int])]) \<and>
   (\<exists>coeffs pmap.
      get_param_coeff
        [''bonds'' \<mapsto> [([''c'', ''h''], [340, 1]), ([''c'', ''c''], [300, 2 :: int])]]
        ''bonds'' = Inr (coeffs, pmap) \<and>
      length coeffs = 2 \<and>
      coeffs ! 1 = [PInt 2, PFloat 300, PFloat 2] \<and>
      pmap [''c'', ''c''] = Some 2)"
proof -
  let ?items = "[([''c'', ''h''], [340, 1]), ([''c'', ''c''], [300, 2 :: int])]"
  let ?ff = "[''bonds'' \<mapsto> ?items]"
  have h: "?ff ''bonds'' = Some ?items \<and> distinct (map fst ?items)" by simp
  with get_param_coeff_spec [of ?ff "''bonds''"] obtain coeffs pmap where
    g: "get_param_coeff ?ff ''bonds'' = Inr (coeffs, pmap)"
    and len: "length coeffs = length ?items"
    and rows: "\<forall>k < length ?items.
            coeffs ! k = PInt (int k + 1) # map PFloat (snd (?items ! k)) \<and>
            pmap (fst (?items ! k)) = Some (int k + 1)"
    by blast
  have "(1::nat) < length ?items" by simp
  with rows have "coeffs ! 1 = PInt (int 1 + 1) # map PFloat (snd (?items ! 1)) \<and>
            pmap (fst (?items ! 1)) = Some (int 1 + 1)"
    by blast
  then have "coeffs ! 1 = [PInt 2, PFloat 300, PFloat 2]" "pmap [''c'', ''c''] = Some 2"
    by simp_all
  with g len h show ?thesis by simp
qed









lemma update_fresh:
  "k \<notin> fst ` set ps \<Longrightarrow> AList.update k v ps = ps @ [(k, v)]"
  by (induction ps) auto

lemma param_loop_fold:
  assumes F: "F = (\<lambda>mol_param_id p2m.
             let param_id = r * np + mol_param_id + shift
             in AList.update param_id (mol_id - 1, mt, mol_param_id) p2m)"
    and keys: "map fst p2m = [0 ..< r * np + shift]"
  shows "map fst (fold F [0 ..< k] p2m) = [0 ..< r * np + shift + k]"
proof (induction k)
  case 0
  show ?case by (simp add: keys)
next
  case (Suc k)
  let ?ps = "fold F [0 ..< k] p2m"
  have fresh: "r * np + k + shift \<notin> fst ` set ?ps"
  proof -
    have "fst ` set ?ps = set (map fst ?ps)" by simp
    also have "\<dots> = {0 ..< r * np + shift + k}" by (simp only: Suc.IH set_upt atLeast0LessThan)
    finally show ?thesis by simp
  qed
  have "fold F [0 ..< Suc k] p2m = F k ?ps" by simp
  also have "\<dots> = ?ps @ [(r * np + k + shift, (mol_id - 1, mt, k))]"
    using fresh by (simp add: F Let_def update_fresh)
  finally show ?case by (simp add: Suc.IH add.commute add.left_commute)
qed

lemma param_loop_keys:
  "map fst p2m = [0 ..< r * np + shift] \<Longrightarrow>
   map fst (param_loop mol_id mt r np shift p2m) = [0 ..< r * np + shift + np]"
  unfolding param_loop_def by (rule param_loop_fold) simp_all

lemma param_replica_loop_fold:
  assumes F: "F = (\<lambda>num_mol_id (mol_id, p2m).
             let mol_id' = mol_id + 1
             in (mol_id', param_loop mol_id' mt num_mol_id np shift p2m))"
    and keys: "map fst p2m = [0 ..< shift]"
  shows "map fst (snd (fold F [0 ..< c] (mol_id, p2m))) = [0 ..< shift + c * np]"
proof (induction c)
  case 0
  show ?case by (simp add: keys)
next
  case (Suc c)
  obtain m ps where st: "fold F [0 ..< c] (mol_id, p2m) = (m, ps)"
    by (cases "fold F [0 ..< c] (mol_id, p2m)")
  with Suc.IH have k: "map fst ps = [0 ..< c * np + shift]" by (simp add: add.commute)
  have "fold F [0 ..< Suc c] (mol_id, p2m) = F c (m, ps)" by (simp add: st)
  then have "snd (fold F [0 ..< Suc c] (mol_id, p2m)) = param_loop (m + 1) mt c np shift ps"
    by (simp add: F Let_def)
  then show ?case
    using param_loop_keys [OF k, of "m + 1" mt] by (simp add: ac_simps)
qed

lemma param_replica_loop_keys:
  "map fst p2m = [0 ..< shift] \<Longrightarrow>
   map fst (snd (param_replica_loop mt np shift c (mol_id, p2m))) = [0 ..< shift + c * np]"
  unfolding param_replica_loop_def by (rule param_replica_loop_fold) simp_all

lemma param_type_loop_keys:
  "param_type_loop name mols_number tops ts (mol_id, shift, p2m) = Inr (mol_id', shift', p2m')
   \<Longrightarrow> map fst p2m = [0 ..< shift] \<Longrightarrow> map fst p2m' = [0 ..< shift']"
proof (induction ts arbitrary: mol_id shift p2m)
  case Nil
  then show ?case by simp
next
  case (Cons t ts)
  from Cons.prems(1) obtain np c m ps where
    rl: "param_replica_loop t np shift c (mol_id, p2m) = (m, ps)"
    and rest: "param_type_loop name mols_number tops ts (m, shift + np * c, ps)
        = Inr (mol_id', shift', p2m')"
    by (auto simp: ebind_def Let_def split: sum.splits option.splits prod.splits)
  from param_replica_loop_keys [OF Cons.prems(2), of t np c mol_id]
  have "map fst ps = [0 ..< shift + np * c]"
    by (simp add: rl mult.commute)
  from Cons.IH [OF rest this] show ?case .
qed

lemma param_to_mol_keys:
  assumes "param_to_mol name mols mols_number tops = Inr p2m"
  shows "map fst p2m = [0 ..< length p2m]"
proof -
  from assms obtain mol_id shift where
    "param_type_loop name mols_number tops [0 ..< length mols] (0, 0, []) = Inr (mol_id, shift, p2m)"
    by (auto simp: param_to_mol_def ebind_def split: sum.splits)
  from param_type_loop_keys [OF this] have k: "map fst p2m = [0 ..< shift]" by simp
  then have "length p2m = shift" by (metis length_map length_upt minus_nat.diff_0)
  with k show ?thesis by simp
qed

lemma py_index_nat:
  "py_index xs (int i) = Inr v \<Longrightarrow> i < length xs \<and> v = xs ! i"
  by (auto simp: py_index_def split: if_splits)

lemma truthy_key_unresolved:
  "l \<noteq> [] \<Longrightarrow> truthy_key (param_key param_map l) \<longleftrightarrow> \<not> unresolved param_map l"
  by (auto simp: truthy_key_def param_key_def unresolved_def Let_def)

lemma param_key_Some:
  "param_key param_map l = Some k \<Longrightarrow> param_map k \<noteq> None"
  by (auto simp: param_key_def Let_def split: if_splits)

lemma param_step_cases:
  assumes step: "param_step name pm tops m2a item (skip, data) = Inr st'"
    and lab: "item_label name tops item \<noteq> []"
  shows "(unresolved pm (item_label name tops item) \<longrightarrow> st' = (Suc skip, data)) \<and>
         (\<not> unresolved pm (item_label name tops item) \<longrightarrow>
            (\<exists>atomids. st' = (skip, data @
               [[int (fst item) + 1 - int skip,
                 the (pm (the (param_key pm (item_label name tops item))))] @ atomids])))"
proof -
  obtain pid g t j where item: "item = (pid, g, t, j)" by (metis prod_cases4)
  from step obtain tp param_obj param atomids where
    tp: "py_index tops (int t) = Inr tp"
    and po: "getattr_topology tp name = Some param_obj"
    and pa: "py_index param_obj (int j) = Inr param"
    and ai: "param_atomids m2a g (fst param) = Inr atomids"
    by (auto simp: param_step_def item ebind_def split: sum.splits option.splits)
  have l: "item_label name tops item = snd param"
    using py_index_nat [OF tp] py_index_nat [OF pa] po
    by (simp add: item_label_def item)
  show ?thesis
  proof (cases "unresolved pm (snd param)")
    case True
    then have "\<not> truthy_key (param_key pm (snd param))"
      using lab l truthy_key_unresolved by metis
    with step True show ?thesis
      by (simp add: param_step_def item ebind_def tp po pa ai l [unfolded item])
  next
    case False
    then have tk: "truthy_key (param_key pm (snd param))"
      using lab l truthy_key_unresolved by metis
    then obtain k where k: "param_key pm (snd param) = Some k"
      by (auto simp: truthy_key_def split: option.splits)
    from param_key_Some [OF k] obtain tid where tid: "pm k = Some tid" by auto
    have tk': "truthy_key (Some k)" using tk by (simp add: k)
    from step False show ?thesis
      by (auto simp: param_step_def item ebind_def tp po pa ai l [unfolded item] tk' k tid Let_def)
  qed
qed

lemma param_item_loop_ids:
  "param_item_loop name pm tops m2a items (skip, data) = Inr (skip', data') \<Longrightarrow>
   \<forall>item \<in> set items. item_label name tops item \<noteq> [] \<Longrightarrow>
   skip' = skip + length (filter (\<lambda>item. unresolved pm (item_label name tops item)) items) \<and>
   map hd data' =
     map hd data @ emitted_ids (\<lambda>item. unresolved pm (item_label name tops item)) items skip"
proof (induction items arbitrary: skip data)
  case Nil
  then show ?case by simp
next
  case (Cons item items)
  let ?U = "\<lambda>item. unresolved pm (item_label name tops item)"
  from Cons.prems(1) obtain st where
    step: "param_step name pm tops m2a item (skip, data) = Inr st"
    and rest: "param_item_loop name pm tops m2a items st = Inr (skip', data')"
    by (auto simp: ebind_def split: sum.splits)
  have lab: "item_label name tops item \<noteq> []" and labs: "\<forall>i \<in> set items. item_label name tops i \<noteq> []"
    using Cons.prems(2) by simp_all
  note c = param_step_cases [OF step lab]
  show ?case
  proof (cases "?U item")
    case True
    with c have st: "st = (Suc skip, data)" by simp
    from Cons.IH [OF rest [unfolded st] labs] True show ?thesis by simp
  next
    case False
    with c obtain row_rest where
      st: "st = (skip, data @ [[int (fst item) + 1 - int skip,
                 the (pm (the (param_key pm (item_label name tops item))))] @ row_rest])"
      by blast
    from Cons.IH [OF rest [unfolded st] labs] False show ?thesis by simp
  qed
qed

lemma upt_add_Suc: "[a ..< a + Suc m] = a # [Suc a ..< Suc a + m]"
proof -
  have "a < a + Suc m" by simp
  from upt_conv_Cons [OF this] show ?thesis by simp
qed

lemma emitted_ids_dense:
  "map fst items = [i ..< i + length items] \<Longrightarrow> skip \<le> i \<Longrightarrow>
   emitted_ids U items skip =
     map int [i - skip + 1 ..< i - skip + 1 + length (filter (\<lambda>x. \<not> U x) items)]"
proof (induction items arbitrary: i skip)
  case Nil
  then show ?case by simp
next
  case (Cons item items)
  have "[i ..< i + length (item # items)] = i # [Suc i ..< Suc i + length items]"
    using upt_add_Suc [of i "length items"] by simp
  with Cons.prems(1) have hd: "fst item = i"
    and tl: "map fst items = [Suc i ..< Suc i + length items]"
    by simp_all
  show ?case
  proof (cases "U item")
    case True
    from Cons.IH [OF tl, of "Suc skip"] Cons.prems(2) True show ?thesis by simp
  next
    case False
    define a where "a = i - skip + 1"
    define m where "m = length (filter (\<lambda>x. \<not> U x) items)"
    have s: "Suc i - skip + 1 = Suc a" using Cons.prems(2) by (simp add: a_def)
    from Cons.IH [OF tl, of skip] Cons.prems(2)
    have ih: "emitted_ids U items skip = map int [Suc a ..< Suc a + m]"
      by (simp only: s m_def)
    have h: "int (fst item) + 1 - int skip = int a"
      using Cons.prems(2) by (simp add: hd a_def)
    have "emitted_ids U (item # items) skip = int a # map int [Suc a ..< Suc a + m]"
      using False by (simp only: emitted_ids.simps if_False h ih)
    also have "\<dots> = map int [a ..< a + Suc m]"
      by (simp only: upt_add_Suc list.map)
    also have "a + Suc m = a + length (filter (\<lambda>x. \<not> U x) (item # items))"
      using False by (simp add: m_def)
    finally show ?thesis by (simp only: a_def)
  qed
qed

lemma emitted_ids_closed:
  "map fst (pre @ items) = [0 ..< length (pre @ items)] \<Longrightarrow> skip = length (filter U pre) \<Longrightarrow>
   emitted_ids U items skip =
     map (\<lambda>item. int (fst item) + 1 - int (length (filter U (take (fst item) (pre @ items)))))
       (filter (\<lambda>x. \<not> U x) items)"
proof (induction items arbitrary: pre skip)
  case Nil
  show ?case by simp
next
  case (Cons item items)
  have "map fst (pre @ item # items) ! length pre = [0 ..< length (pre @ item # items)] ! length pre"
    by (simp only: Cons.prems(1))
  then have key: "fst item = length pre"
    by (simp add: nth_append)
  have p: "map fst ((pre @ [item]) @ items) = [0 ..< length ((pre @ [item]) @ items)]"
    using Cons.prems(1) by simp
  have sk: "(if U item then Suc skip else skip) = length (filter U (pre @ [item]))"
    using Cons.prems(2) by simp
  from Cons.IH [OF p sk] have
    ih: "emitted_ids U items (if U item then Suc skip else skip) =
        map (\<lambda>x. int (fst x) + 1 - int (length (filter U (take (fst x) (pre @ item # items)))))
          (filter (\<lambda>x. \<not> U x) items)"
    by simp
  have tk: "take (length pre) (pre @ item # items) = pre" by simp
  show ?case
    using ih Cons.prems(2) by (cases "U item") (simp_all add: key tk del: take_append)
qed

text \<open>
  C5. Let a family be expanded by \<^verbatim>\<open>get_param_data\<close> (the first topology has a non-empty
  list of it), let \<^verbatim>\<open>param_to_mol\<close> be the dictionary of the \<open>n\<close> interactions the first
  loop nest enumerates, and let every label be a non-empty tuple. Then the pre-skip ids
  are \<open>0, ..., n - 1\<close> in the order of the dictionary; with \<open>k\<close> the number of
  interactions whose label is in the coefficient map neither as given nor reversed, the
  table returned has \<open>n - k\<close> rows; their ids are \<open>1, ..., n - k\<close>; and the id of the row of a
  resolved interaction is its pre-skip id plus one minus the number of unresolved
  interactions before it.
\<close>

theorem get_param_data_skip_compaction:
  assumes guard: "tops = t0 # ts" "getattr_topology t0 name = Some (p # ps)"
    and enum: "param_to_mol name mols mols_number tops = Inr p2m"
    and ret: "get_param_data name pm mols mols_number tops m2a = Inr rows"
    and lab: "\<forall>item \<in> set p2m. item_label name tops item \<noteq> []"
  shows "map fst p2m = [0 ..< length p2m] \<and>
     length rows =
       length p2m - length (filter (\<lambda>item. unresolved pm (item_label name tops item)) p2m) \<and>
     map hd rows = map int [1 ..< Suc (length rows)] \<and>
     map hd rows =
       map (\<lambda>item. int (fst item) + 1 -
              int (length (filter (\<lambda>item. unresolved pm (item_label name tops item))
                     (take (fst item) p2m))))
         (filter (\<lambda>item. \<not> unresolved pm (item_label name tops item)) p2m)"
proof -
  let ?U = "\<lambda>item. unresolved pm (item_label name tops item)"
  from ret guard enum obtain skip where
    loop: "param_item_loop name pm tops m2a p2m (0, []) = Inr (skip, rows)"
    by (auto simp: get_param_data_def ebind_def split: sum.splits)
  have keys: "map fst p2m = [0 ..< length p2m]"
    by (rule param_to_mol_keys [OF enum])
  from param_item_loop_ids [OF loop lab]
  have ids: "map hd rows = emitted_ids ?U p2m 0" by simp
  have k0: "map fst p2m = [0 ..< 0 + length p2m]" using keys by simp
  from emitted_ids_dense [OF k0, of 0 ?U]
  have dense: "map hd rows = map int [1 ..< 1 + length (filter (\<lambda>x. \<not> ?U x) p2m)]"
    by (simp add: ids)
  then have "length (map hd rows) = length (filter (\<lambda>x. \<not> ?U x) p2m)"
    by (simp only: length_map length_upt)
  then have len: "length rows = length (filter (\<lambda>x. \<not> ?U x) p2m)" by simp
  have "length (filter ?U p2m) + length (filter (\<lambda>x. \<not> ?U x) p2m) = length p2m"
    by (rule sum_length_filter_compl)
  with len have len': "length rows = length p2m - length (filter ?U p2m)" by simp
  have k1: "map fst ([] @ p2m) = [0 ..< length ([] @ p2m)]" using keys by simp
  from emitted_ids_closed [OF k1, of 0 ?U]
  have closed: "map hd rows =
       map (\<lambda>item. int (fst item) + 1 - int (length (filter ?U (take (fst item) p2m))))
         (filter (\<lambda>item. \<not> ?U item) p2m)"
    by (simp add: ids)
  from dense len have dense': "map hd rows = map int [1 ..< Suc (length rows)]" by simp
  show ?thesis using keys len' dense' closed by blast
qed

lemma two_bonds_enum:
  "param_to_mol ''bonds'' [[(), (), ()]] [2]
     [\<lparr>bonds = Some [([0, 1], [''a'', ''b'']), ([1, 2], [''x'', ''y''])], angles = Some [],
       dihedrals = Some [], imdihedrals = Some [], charges = Some ([] :: rat list)\<rparr>]
   = Inr [(0, 0, 0, 0), (1, 0, 0, 1), (2, 1, 0, 0), (3, 1, 0, 1)]"
  by (simp add: param_to_mol_def ebind_def py_index_def getattr_topology_def
        param_replica_loop_def param_loop_def upt_rec)

lemma two_bonds_data:
  "get_param_data ''bonds'' [[''b'', ''a''] \<mapsto> 1] [[(), (), ()]] [2]
     [\<lparr>bonds = Some [([0, 1], [''a'', ''b'']), ([1, 2], [''x'', ''y''])], angles = Some [],
       dihedrals = Some [], imdihedrals = Some [], charges = Some ([] :: rat list)\<rparr>]
     [[0, 1, 2], [3, 4, 5]]
   = Inr [[1, 1, 1, 2], [2, 1, 4, 5]]"
  by (simp add: get_param_data_def two_bonds_enum ebind_def py_index_def
        getattr_topology_def param_step_def param_key_def truthy_key_def)

theorem get_param_data_skip_compaction_witness:
  "param_to_mol ''bonds'' [[(), (), ()]] [2]
     [\<lparr>bonds = Some [([0, 1], [''a'', ''b'']), ([1, 2], [''x'', ''y''])], angles = Some [],
       dihedrals = Some [], imdihedrals = Some [], charges = Some ([] :: rat list)\<rparr>]
   = Inr [(0, 0, 0, 0), (1, 0, 0, 1), (2, 1, 0, 0), (3, 1, 0, 1)] \<and>
   get_param_data ''bonds'' [[''b'', ''a''] \<mapsto> 1] [[(), (), ()]] [2]
     [\<lparr>bonds = Some [([0, 1], [''a'', ''b'']), ([1, 2], [''x'', ''y''])], angles = Some [],
       dihedrals = Some [], imdihedrals = Some [], charges = Some ([] :: rat list)\<rparr>]
     [[0, 1, 2], [3, 4, 5]]
   = Inr [[1, 1, 1, 2], [2, 1, 4, 5]] \<and>
   map hd [[1, 1, 1, 2], [2, 1, 4, 5 :: int]] =
     map int [1 ..< Suc (length [[1, 1, 1, 2], [2, 1, 4, 5 :: int]])]"
proof -
  let ?t = "\<lparr>bonds = Some [([0, 1], [''a'', ''b'']), ([1, 2], [''x'', ''y''])],
             angles = Some [], dihedrals = Some [], imdihedrals = Some [],
             charges = Some ([] :: rat list)\<rparr>"
  let ?p2m = "[(0 :: nat, 0 :: nat, 0 :: nat, 0 :: nat), (1, 0, 0, 1), (2, 1, 0, 0), (3, 1, 0, 1)]"
  have guard: "getattr_topology ?t ''bonds'' = Some (([0, 1], [''a'', ''b'']) # [([1, 2], [''x'', ''y''])])"
    by (simp add: getattr_topology_def)
  have lab: "\<forall>item \<in> set ?p2m. item_label ''bonds'' [?t] item \<noteq> []"
    by (simp add: item_label_def getattr_topology_def)
  from get_param_data_skip_compaction [OF refl guard two_bonds_enum two_bonds_data lab]
  have "map hd [[1, 1, 1, 2], [2, 1, 4, 5 :: int]] =
          map int [1 ..< Suc (length [[1, 1, 1, 2], [2, 1, 4, 5 :: int]])]"
    by blast
  then show ?thesis using two_bonds_enum two_bonds_data by blast
qed





subsection \<open>Runs of a class at the start of a string\<close>

lemma while_stop:
  "rest = [] \<or> \<not> P (hd rest) \<Longrightarrow> takeWhile P rest = [] \<and> dropWhile P rest = rest"
  by (cases rest) auto

lemma takeWhile_run:
  "\<forall>c \<in> set w. P c \<Longrightarrow> rest = [] \<or> \<not> P (hd rest) \<Longrightarrow> takeWhile P (w @ rest) = w"
  by (induction w) (simp_all add: while_stop)

lemma dropWhile_run:
  "\<forall>c \<in> set w. P c \<Longrightarrow> rest = [] \<or> \<not> P (hd rest) \<Longrightarrow> dropWhile P (w @ rest) = rest"
  by (induction w) (simp_all add: while_stop)

lemma dropWhile_stop: "dropWhile P s = [] \<or> \<not> P (hd (dropWhile P s))"
  by (induction s) auto

lemma word_stops: "word w \<Longrightarrow> stops (w @ rest)"
  by (cases w) (auto simp: word_def stops_def)

lemma stops_Nil [simp]: "stops []"
  by (simp add: stops_def)

lemma line_end_spaces: "line_end e \<Longrightarrow> spaces e"
  by (auto simp: line_end_def spaces_def is_space_def)

text \<open>The prefix of a word that a class takes, when white space follows the word.\<close>

lemma takeWhile_word:
  assumes "word w" "no_space P" "spaces s" "s \<noteq> []"
  shows "takeWhile P (w @ s @ rest) = takeWhile P w \<and>
         dropWhile P (w @ s @ rest) = dropWhile P w @ s @ rest"
proof -
  have "is_space (hd s)" using assms(3,4) by (cases s) (auto simp: spaces_def)
  then have np: "\<not> P (hd (s @ rest))"
    using assms(2,4) by (auto simp: no_space_def)
  have r: "takeWhile P (s @ rest) = [] \<and> dropWhile P (s @ rest) = s @ rest"
    by (rule while_stop) (simp add: np)
  show ?thesis
    by (induction w) (simp_all add: r)
qed

lemma dropWhile_word_nonspace:
  assumes "word w" "dropWhile P w \<noteq> []"
  shows "\<not> is_space (hd (dropWhile P w))"
proof -
  have "hd (dropWhile P w) \<in> set (dropWhile P w)" using assms(2) by simp
  then have "hd (dropWhile P w) \<in> set w" by (meson set_dropWhileD)
  then show ?thesis using assms(1) by (auto simp: word_def)
qed

text \<open>A group followed by white space, on a word followed by white space.\<close>

lemma re_group_sep:
  assumes w: "word w" and P: "no_space P"
    and s: "spaces s" "s \<noteq> []" and rest: "stops rest"
  shows "re_match (Group P # Many1 is_space # r) (w @ s @ rest) =
         (if \<forall>c \<in> set w. P c then map_option (\<lambda>gs. w # gs) (re_match r rest) else None)"
proof (cases "\<forall>c \<in> set w. P c")
  case True
  note tw = takeWhile_word [OF w P s, of rest]
  have aw: "takeWhile P w = w" "dropWhile P w = []"
    using True by simp_all
  have t: "takeWhile P (w @ s @ rest) = w" "dropWhile P (w @ s @ rest) = s @ rest"
    using tw by (simp_all only: aw append_Nil)
  have st': "rest = [] \<or> \<not> is_space (hd rest)" using rest by (simp add: stops_def)
  have sp: "\<forall>c \<in> set s. is_space c" using s by (simp add: spaces_def)
  have ts: "takeWhile is_space (s @ rest) = s" "dropWhile is_space (s @ rest) = rest"
    by (rule takeWhile_run [OF sp st'], rule dropWhile_run [OF sp st'])
  from w have "w \<noteq> []" by (simp add: word_def)
  with True show ?thesis by (simp add: re_match.simps t ts s)
next
  case False
  note tw = takeWhile_word [OF w P s, of rest]
  from False have ne: "dropWhile P w \<noteq> []" by simp
  have "\<not> is_space (hd (dropWhile P w @ s @ rest))"
    using dropWhile_word_nonspace [OF w ne] ne by simp
  then have "takeWhile is_space (dropWhile P w @ s @ rest) = []"
    using ne by (cases "dropWhile P w") auto
  then have m: "re_match (Many1 is_space # r) (dropWhile P w @ s @ rest) = None"
    by (simp only: re_match.simps refl if_True)
  have "re_match (Group P # Many1 is_space # r) (w @ s @ rest) = None"
    unfolding re_match.simps(4) conjunct1 [OF tw] conjunct2 [OF tw] m by simp
  then show ?thesis unfolding if_not_P [OF False] .
qed

lemma re_many0:
  assumes "spaces s" "stops rest"
  shows "re_match (Many0 is_space # r) (s @ rest) = re_match r rest"
proof -
  have st': "rest = [] \<or> \<not> is_space (hd rest)" using assms(2) by (simp add: stops_def)
  have sp: "\<forall>c \<in> set s. is_space c" using assms(1) by (simp add: spaces_def)
  show ?thesis unfolding re_match.simps dropWhile_run [OF sp st'] ..
qed

lemma re_many0_stops:
  assumes "stops rest"
  shows "re_match (Many0 is_space # r) rest = re_match r rest"
  using re_many0 [of "[]" rest r] assms by (simp add: spaces_def)

text \<open>A group at the end of the line.\<close>

lemma re_group_eol:
  assumes w: "word w" and P: "no_space P" and e: "line_end e"
  shows "re_match [Group P, Eol] (w @ e) = (if \<forall>c \<in> set w. P c then Some [w] else None)"
proof (cases "\<forall>c \<in> set w. P c")
  case True
  have "is_space CHR ''\<newline>''" by (simp add: is_space_def)
  with P have "\<not> P CHR ''\<newline>''" by (auto simp: no_space_def)
  then have st: "e = [] \<or> \<not> P (hd e)"
    using e by (auto simp: line_end_def)
  have t: "takeWhile P (w @ e) = w" "dropWhile P (w @ e) = e"
    by (rule takeWhile_run [OF True st], rule dropWhile_run [OF True st])
  from w have "w \<noteq> []" by (simp add: word_def)
  moreover have "re_match [Eol] e = Some []"
    using e by (auto simp: re_match.simps line_end_def)
  ultimately show ?thesis using True unfolding re_match.simps(4) t by simp
next
  case False
  from False have ne: "dropWhile P w \<noteq> []" by simp
  have d: "dropWhile P (w @ e) = dropWhile P w @ e"
    using ne by (induction w) auto
  have nsp: "\<not> is_space (hd (dropWhile P w))"
    by (rule dropWhile_word_nonspace [OF w ne])
  have "dropWhile P w @ e \<noteq> []" using ne by simp
  moreover have "dropWhile P w @ e \<noteq> ''\<newline>''"
  proof
    assume a: "dropWhile P w @ e = ''\<newline>''"
    then have "hd (dropWhile P w) = CHR ''\<newline>''"
      using ne by (cases "dropWhile P w") auto
    with nsp show False by (simp add: is_space_def)
  qed
  ultimately have m: "re_match [Eol] (dropWhile P w @ e) = None"
    by (simp add: re_match.simps)
  have "re_match [Group P, Eol] (w @ e) = None"
    unfolding re_match.simps(4) d m by simp
  then show ?thesis unfolding if_not_P [OF False] .
qed

lemma re_group_sep_eol:
  assumes w: "word w" and P: "no_space P"
    and s: "spaces s" "s \<noteq> []" and rest: "rest \<noteq> []"
  shows "re_match [Group P, Eol] (w @ s @ rest) = None"
proof -
  note tw = takeWhile_word [OF w P s, of rest]
  have "dropWhile P w @ s @ rest \<noteq> []" using s by simp
  moreover have "dropWhile P w @ s @ rest \<noteq> ''\<newline>''"
  proof
    assume a: "dropWhile P w @ s @ rest = ''\<newline>''"
    have "length (dropWhile P w @ s @ rest) \<ge> 2"
      using s(2) rest by (cases s; cases rest) auto
    with a show False by simp
  qed
  ultimately have "re_match [Eol] (dropWhile P w @ s @ rest) = None"
    by (simp add: re_match.simps)
  then show ?thesis unfolding re_match.simps(4) conjunct2 [OF tw] by simp
qed

lemma no_space_classes [simp]:
  "no_space is_digit" "no_space is_mass_char" "no_space is_num_char" "no_space is_alpha"
  by (auto simp: no_space_def is_digit_def is_mass_char_def is_num_char_def is_alpha_def
        is_space_def)

subsection \<open>The writer\<close>

lemma join_Cons: "ys \<noteq> [] \<Longrightarrow> join sep (x # ys) = x @ sep @ join sep ys"
  by (cases ys) simp_all

lemma join_append:
  "xs \<noteq> [] \<Longrightarrow> ys \<noteq> [] \<Longrightarrow> join sep (xs @ ys) = join sep xs @ sep @ join sep ys"
proof (induction xs)
  case Nil
  then show ?case by simp
next
  case (Cons x xs)
  show ?case
  proof (cases "xs = []")
    case True
    with Cons.prems show ?thesis by (simp add: join_Cons)
  next
    case False
    with Cons show ?thesis by (simp add: join_Cons)
  qed
qed

lemma join_append_cases:
  "xs \<noteq> [] \<Longrightarrow>
   join sep (xs @ ys) = join sep xs @ (if ys = [] then [] else sep @ join sep ys)"
  by (simp add: join_append)

lemma set_lines_from_list_block:
  "set_lines_from_list sf lines name rows = lines @ block_lines sf name rows"
  by (simp add: set_lines_from_list_def block_lines_def)

lemma ff_block_lines_blocks:
  "ff_block_lines sf r lines0 = lines0 @ ff_blocks sf r"
  unfolding ff_block_lines_def ff_blocks_def Let_def set_lines_from_list_block
  by (cases "0 < ndih r"; cases "0 < nimdihs r") simp_all

lemma ff_count_lines_join:
  "join ''\<newline>'' (ff_count_lines r @ [''\<newline>'' @ box]) =
     ''Data file generated by pymatgen\<newline>\<newline>'' @
     str_nat (natoms r) @ '' atoms\<newline>'' @
     str_nat (nbonds r) @ '' bonds\<newline>'' @
     str_nat (nangles r) @ '' angles\<newline>'' @
     (if ndih r > 0 then str_nat (ndih r) @ '' dihedrals\<newline>'' else []) @
     (if nimdihs r > 0 then str_nat (nimdihs r) @ '' impropers\<newline>'' else []) @
     ''\<newline>'' @ str_nat (natom_types r) @ '' atom types\<newline>'' @
     str_nat (nbond_types r) @ '' bond types\<newline>'' @
     str_nat (nangle_types r) @ '' angle types\<newline>'' @
     (if ndih r > 0 then str_nat (ndih_types r) @ '' dihedral types\<newline>'' else []) @
     (if nimdihs r > 0 then str_nat (nimdih_types r) @ '' improper types\<newline>'' else []) @
     ''\<newline>'' @ box"
  unfolding ff_count_lines_def Let_def
  by (cases "0 < ndih r"; cases "0 < nimdihs r") simp_all

text \<open>
  C4, as the code has it. The text the writer returns begins with the title, an empty
  line, and the lines of the counts of atoms, bonds and angles, whatever the counts;
  the line of the dihedrals follows when \<^verbatim>\<open>ndih > 0\<close> and the line of the impropers when
  \<^verbatim>\<open>nimdihs > 0\<close>; then, after an empty line, the counts of the types of atoms, bonds and
  angles, whatever the counts, the count of the types of dihedrals when \<^verbatim>\<open>ndih > 0\<close> and
  the count of the types of impropers when \<^verbatim>\<open>nimdihs > 0\<close> (the condition is on the number
  of records, not on the number of types); then an empty line and the box.
\<close>

theorem str_ff_data_header:
  assumes "str_ff_data sf r = Inr text"
  shows "\<exists>box rest. box_text sf (box_size r) = Inr box \<and>
     text =
       ''Data file generated by pymatgen\<newline>\<newline>'' @
       str_nat (natoms r) @ '' atoms\<newline>'' @
       str_nat (nbonds r) @ '' bonds\<newline>'' @
       str_nat (nangles r) @ '' angles\<newline>'' @
       (if ndih r > 0 then str_nat (ndih r) @ '' dihedrals\<newline>'' else []) @
       (if nimdihs r > 0 then str_nat (nimdihs r) @ '' impropers\<newline>'' else []) @
       ''\<newline>'' @ str_nat (natom_types r) @ '' atom types\<newline>'' @
       str_nat (nbond_types r) @ '' bond types\<newline>'' @
       str_nat (nangle_types r) @ '' angle types\<newline>'' @
       (if ndih r > 0 then str_nat (ndih_types r) @ '' dihedral types\<newline>'' else []) @
       (if nimdihs r > 0 then str_nat (nimdih_types r) @ '' improper types\<newline>'' else []) @
       ''\<newline>'' @ box @ rest"
proof -
  from assms obtain box where box: "box_text sf (box_size r) = Inr box"
    and tx: "text = join ''\<newline>'' (ff_block_lines sf r (ff_count_lines r @ [''\<newline>'' @ box]))"
    by (auto simp: str_ff_data_def ff_lines_def ebind_def split: sum.splits)
  have "text = join ''\<newline>'' ((ff_count_lines r @ [''\<newline>'' @ box]) @ ff_blocks sf r)"
    by (simp only: tx ff_block_lines_blocks)
  also have "\<dots> = join ''\<newline>'' (ff_count_lines r @ [''\<newline>'' @ box]) @
       (if ff_blocks sf r = [] then [] else ''\<newline>'' @ join ''\<newline>'' (ff_blocks sf r))"
    by (rule join_append_cases) simp
  finally have "text = join ''\<newline>'' (ff_count_lines r @ [''\<newline>'' @ box]) @
       (if ff_blocks sf r = [] then [] else ''\<newline>'' @ join ''\<newline>'' (ff_blocks sf r))" .
  then show ?thesis
    unfolding ff_count_lines_join using box
    by (intro exI [of _ box]
          exI [of _ "if ff_blocks sf r = [] then [] else ''\<newline>'' @ join ''\<newline>'' (ff_blocks sf r)"])
       simp
qed

lemma empty_record_text:
  "str_ff_data (\<lambda>s. s)
     (LammpsForceFieldData_init [[PInt 0, PInt 10], [PInt 0, PInt 10], [PInt 0, PInt 10]]
        [] [] [] [] [] [] [] [] [] [] [])
   = Inr ''Data file generated by pymatgen\<newline>\<newline>0 atoms\<newline>0 bonds\<newline>0 angles\<newline>\<newline>0 atom types\<newline>0 bond types\<newline>0 angle types\<newline>\<newline>0 10 xlo xhi\<newline>0 10 ylo yhi\<newline>0 10 zlo zhi''"
  by (simp add: str_ff_data_def ff_lines_def ff_block_lines_def ff_count_lines_def
        set_lines_from_list_def box_text_def box_entry_def ebind_def py_index_def
        LammpsForceFieldData_init_def LammpsData_init_def lammps_data.defs
        str_int_def digit_char_def str_nat.simps)

theorem str_ff_data_header_witness:
  "let r = LammpsForceFieldData_init
             [[PInt 0, PInt 10], [PInt 0, PInt 10], [PInt 0, PInt 10]]
             [] [] [] [] [] [] [] [] [] [] [];
       t = ''Data file generated by pymatgen\<newline>\<newline>0 atoms\<newline>0 bonds\<newline>0 angles\<newline>\<newline>0 atom types\<newline>0 bond types\<newline>0 angle types\<newline>\<newline>0 10 xlo xhi\<newline>0 10 ylo yhi\<newline>0 10 zlo zhi''
   in str_ff_data (\<lambda>s. s) r = Inr t \<and>
      (\<exists>box rest. box_text (\<lambda>s. s) (box_size r) = Inr box \<and>
         t =
           ''Data file generated by pymatgen\<newline>\<newline>'' @
           str_nat (natoms r) @ '' atoms\<newline>'' @
           str_nat (nbonds r) @ '' bonds\<newline>'' @
           str_nat (nangles r) @ '' angles\<newline>'' @
           (if ndih r > 0 then str_nat (ndih r) @ '' dihedrals\<newline>'' else []) @
           (if nimdihs r > 0 then str_nat (nimdihs r) @ '' impropers\<newline>'' else []) @
           ''\<newline>'' @ str_nat (natom_types r) @ '' atom types\<newline>'' @
           str_nat (nbond_types r) @ '' bond types\<newline>'' @
           str_nat (nangle_types r) @ '' angle types\<newline>'' @
           (if ndih r > 0 then str_nat (ndih_types r) @ '' dihedral types\<newline>'' else []) @
           (if nimdihs r > 0 then str_nat (nimdih_types r) @ '' improper types\<newline>''
            else []) @
           ''\<newline>'' @ box @ rest)"
  unfolding Let_def
  using str_ff_data_header [OF empty_record_text] empty_record_text by blast

text \<open>
  A record with no bonds, no angles and no types of them: the lines \<^verbatim>\<open>0 bonds\<close>,
  \<^verbatim>\<open>0 angles\<close>, \<^verbatim>\<open>0 bond types\<close> and \<^verbatim>\<open>0 angle types\<close> are written.
\<close>

theorem bond_count_line_counterexample:
  "nbonds (LammpsForceFieldData_init
             [[PInt 0, PInt 10], [PInt 0, PInt 10], [PInt 0, PInt 10 :: string pyval]]
             [] [] [] [] [] [] [] [] [] [] []) = 0 \<and>
   str_ff_data (\<lambda>s. s)
     (LammpsForceFieldData_init [[PInt 0, PInt 10], [PInt 0, PInt 10], [PInt 0, PInt 10]]
        [] [] [] [] [] [] [] [] [] [] [])
   = Inr ''Data file generated by pymatgen\<newline>\<newline>0 atoms\<newline>0 bonds\<newline>0 angles\<newline>\<newline>0 atom types\<newline>0 bond types\<newline>0 angle types\<newline>\<newline>0 10 xlo xhi\<newline>0 10 ylo yhi\<newline>0 10 zlo zhi''"
  using empty_record_text
  by (simp add: LammpsForceFieldData_init_def LammpsData_init_def lammps_data.defs)

subsection \<open>The errors of the parsers\<close>


lemma ebind_Inr:
  "ebind m f = Inr y \<Longrightarrow> \<exists>v. m = Inr v \<and> f v = Inr y"
  by (cases m) (simp_all add: ebind_def)































subsection \<open>What each step of the loop body leaves unchanged\<close>

lemma read_types_frame:
  "st_atomic_masses (read_types st line) = st_atomic_masses st \<and>
   st_box_size (read_types st line) = st_box_size st \<and>
   st_pair_coeffs (read_types st line) = st_pair_coeffs st \<and>
   st_bond_coeffs (read_types st line) = st_bond_coeffs st \<and>
   st_angle_coeffs (read_types st line) = st_angle_coeffs st \<and>
   st_dihedral_coeffs (read_types st line) = st_dihedral_coeffs st \<and>
   st_improper_coeffs (read_types st line) = st_improper_coeffs st \<and>
   st_atoms_data (read_types st line) = st_atoms_data st \<and>
   st_bonds_data (read_types st line) = st_bonds_data st \<and>
   st_angles_data (read_types st line) = st_angles_data st \<and>
   st_dihedral_data (read_types st line) = st_dihedral_data st \<and>
   st_imdihedral_data (read_types st line) = st_imdihedral_data st \<and>
   read_pair_coeffs (read_types st line) = read_pair_coeffs st \<and>
   read_bond_coeffs (read_types st line) = read_bond_coeffs st \<and>
   read_angle_coeffs (read_types st line) = read_angle_coeffs st \<and>
   read_dihedral_coeffs (read_types st line) = read_dihedral_coeffs st \<and>
   read_improper_coeffs (read_types st line) = read_improper_coeffs st"
  by (simp add: read_types_def Let_def split: option.splits list.splits)

lemma read_masses_frame:
  assumes "read_masses fl st line = Inr st'"
  shows "st_box_size st' = st_box_size st \<and>
     st_pair_coeffs st' = st_pair_coeffs st \<and>
     st_bond_coeffs st' = st_bond_coeffs st \<and>
     st_angle_coeffs st' = st_angle_coeffs st \<and>
     st_dihedral_coeffs st' = st_dihedral_coeffs st \<and>
     st_improper_coeffs st' = st_improper_coeffs st \<and>
     st_atoms_data st' = st_atoms_data st \<and>
     st_bonds_data st' = st_bonds_data st \<and>
     st_angles_data st' = st_angles_data st \<and>
     st_dihedral_data st' = st_dihedral_data st \<and>
     st_imdihedral_data st' = st_imdihedral_data st \<and>
     read_pair_coeffs st' = read_pair_coeffs st \<and>
     read_bond_coeffs st' = read_bond_coeffs st \<and>
     read_angle_coeffs st' = read_angle_coeffs st \<and>
     read_dihedral_coeffs st' = read_dihedral_coeffs st \<and>
     read_improper_coeffs st' = read_improper_coeffs st \<and>
     st_natom_types st' = st_natom_types st \<and>
     npair_types st' = npair_types st \<and>
     st_nbond_types st' = st_nbond_types st \<and>
     st_nangle_types st' = st_nangle_types st \<and>
     ndihedral_types st' = ndihedral_types st \<and>
     nimproper_types st' = nimproper_types st"
  using assms
  by (auto simp: read_masses_def split: option.splits list.splits dest!: ebind_Inr)

lemma read_box_frame:
  assumes "read_box fl st line = Inr st'"
  shows "st_atomic_masses st' = st_atomic_masses st \<and>
     st_pair_coeffs st' = st_pair_coeffs st \<and>
     st_bond_coeffs st' = st_bond_coeffs st \<and>
     st_angle_coeffs st' = st_angle_coeffs st \<and>
     st_dihedral_coeffs st' = st_dihedral_coeffs st \<and>
     st_improper_coeffs st' = st_improper_coeffs st \<and>
     st_atoms_data st' = st_atoms_data st \<and>
     st_bonds_data st' = st_bonds_data st \<and>
     st_angles_data st' = st_angles_data st \<and>
     st_dihedral_data st' = st_dihedral_data st \<and>
     st_imdihedral_data st' = st_imdihedral_data st \<and>
     read_pair_coeffs st' = read_pair_coeffs st \<and>
     read_bond_coeffs st' = read_bond_coeffs st \<and>
     read_angle_coeffs st' = read_angle_coeffs st \<and>
     read_dihedral_coeffs st' = read_dihedral_coeffs st \<and>
     read_improper_coeffs st' = read_improper_coeffs st \<and>
     st_natom_types st' = st_natom_types st \<and>
     npair_types st' = npair_types st \<and>
     st_nbond_types st' = st_nbond_types st \<and>
     st_nangle_types st' = st_nangle_types st \<and>
     ndihedral_types st' = ndihedral_types st \<and>
     nimproper_types st' = nimproper_types st"
  using assms
  by (auto simp: read_box_def split: option.splits list.splits dest!: ebind_Inr)

lemma read_pair_frame:
  assumes "read_pair fl st line = Inr st'"
  shows "st_atomic_masses st' = st_atomic_masses st \<and>
     st_box_size st' = st_box_size st \<and>
     st_bond_coeffs st' = st_bond_coeffs st \<and>
     st_angle_coeffs st' = st_angle_coeffs st \<and>
     st_dihedral_coeffs st' = st_dihedral_coeffs st \<and>
     st_improper_coeffs st' = st_improper_coeffs st \<and>
     st_atoms_data st' = st_atoms_data st \<and>
     st_bonds_data st' = st_bonds_data st \<and>
     st_angles_data st' = st_angles_data st \<and>
     st_dihedral_data st' = st_dihedral_data st \<and>
     st_imdihedral_data st' = st_imdihedral_data st \<and>
     read_bond_coeffs st' = read_bond_coeffs st \<and>
     read_angle_coeffs st' = read_angle_coeffs st \<and>
     read_dihedral_coeffs st' = read_dihedral_coeffs st \<and>
     read_improper_coeffs st' = read_improper_coeffs st \<and>
     st_natom_types st' = st_natom_types st \<and>
     npair_types st' = npair_types st \<and>
     st_nbond_types st' = st_nbond_types st \<and>
     st_nangle_types st' = st_nangle_types st \<and>
     ndihedral_types st' = ndihedral_types st \<and>
     nimproper_types st' = nimproper_types st"
  using assms
  by (auto simp: read_pair_def Let_def split: if_splits dest!: ebind_Inr)

lemma read_bond_frame:
  assumes "read_bond fl st line = Inr st'"
  shows "st_atomic_masses st' = st_atomic_masses st \<and>
     st_box_size st' = st_box_size st \<and>
     st_pair_coeffs st' = st_pair_coeffs st \<and>
     st_angle_coeffs st' = st_angle_coeffs st \<and>
     st_dihedral_coeffs st' = st_dihedral_coeffs st \<and>
     st_improper_coeffs st' = st_improper_coeffs st \<and>
     st_atoms_data st' = st_atoms_data st \<and>
     st_bonds_data st' = st_bonds_data st \<and>
     st_angles_data st' = st_angles_data st \<and>
     st_dihedral_data st' = st_dihedral_data st \<and>
     st_imdihedral_data st' = st_imdihedral_data st \<and>
     read_pair_coeffs st' = read_pair_coeffs st \<and>
     read_angle_coeffs st' = read_angle_coeffs st \<and>
     read_dihedral_coeffs st' = read_dihedral_coeffs st \<and>
     read_improper_coeffs st' = read_improper_coeffs st \<and>
     st_natom_types st' = st_natom_types st \<and>
     npair_types st' = npair_types st \<and>
     st_nbond_types st' = st_nbond_types st \<and>
     st_nangle_types st' = st_nangle_types st \<and>
     ndihedral_types st' = ndihedral_types st \<and>
     nimproper_types st' = nimproper_types st"
  using assms
  by (auto simp: read_bond_def Let_def split: if_splits option.splits dest!: ebind_Inr)

lemma read_angle_frame:
  assumes "read_angle fl st line = Inr st'"
  shows "st_atomic_masses st' = st_atomic_masses st \<and>
     st_box_size st' = st_box_size st \<and>
     st_pair_coeffs st' = st_pair_coeffs st \<and>
     st_bond_coeffs st' = st_bond_coeffs st \<and>
     st_dihedral_coeffs st' = st_dihedral_coeffs st \<and>
     st_improper_coeffs st' = st_improper_coeffs st \<and>
     st_atoms_data st' = st_atoms_data st \<and>
     st_bonds_data st' = st_bonds_data st \<and>
     st_angles_data st' = st_angles_data st \<and>
     st_dihedral_data st' = st_dihedral_data st \<and>
     st_imdihedral_data st' = st_imdihedral_data st \<and>
     read_pair_coeffs st' = read_pair_coeffs st \<and>
     read_bond_coeffs st' = read_bond_coeffs st \<and>
     read_dihedral_coeffs st' = read_dihedral_coeffs st \<and>
     read_improper_coeffs st' = read_improper_coeffs st \<and>
     st_natom_types st' = st_natom_types st \<and>
     npair_types st' = npair_types st \<and>
     st_nbond_types st' = st_nbond_types st \<and>
     st_nangle_types st' = st_nangle_types st \<and>
     ndihedral_types st' = ndihedral_types st \<and>
     nimproper_types st' = nimproper_types st"
  using assms
  by (auto simp: read_angle_def Let_def split: if_splits option.splits dest!: ebind_Inr)

lemma read_dihedral_frame:
  assumes "read_dihedral fl st line = Inr st'"
  shows "st_atomic_masses st' = st_atomic_masses st \<and>
     st_box_size st' = st_box_size st \<and>
     st_pair_coeffs st' = st_pair_coeffs st \<and>
     st_bond_coeffs st' = st_bond_coeffs st \<and>
     st_angle_coeffs st' = st_angle_coeffs st \<and>
     st_improper_coeffs st' = st_improper_coeffs st \<and>
     st_atoms_data st' = st_atoms_data st \<and>
     st_bonds_data st' = st_bonds_data st \<and>
     st_angles_data st' = st_angles_data st \<and>
     st_dihedral_data st' = st_dihedral_data st \<and>
     st_imdihedral_data st' = st_imdihedral_data st \<and>
     read_pair_coeffs st' = read_pair_coeffs st \<and>
     read_bond_coeffs st' = read_bond_coeffs st \<and>
     read_angle_coeffs st' = read_angle_coeffs st \<and>
     read_improper_coeffs st' = read_improper_coeffs st \<and>
     st_natom_types st' = st_natom_types st \<and>
     npair_types st' = npair_types st \<and>
     st_nbond_types st' = st_nbond_types st \<and>
     st_nangle_types st' = st_nangle_types st \<and>
     ndihedral_types st' = ndihedral_types st \<and>
     nimproper_types st' = nimproper_types st"
  using assms
  by (auto simp: read_dihedral_def Let_def split: if_splits dest!: ebind_Inr)

lemma read_improper_frame:
  assumes "read_improper fl st line = Inr st'"
  shows "st_atomic_masses st' = st_atomic_masses st \<and>
     st_box_size st' = st_box_size st \<and>
     st_pair_coeffs st' = st_pair_coeffs st \<and>
     st_bond_coeffs st' = st_bond_coeffs st \<and>
     st_angle_coeffs st' = st_angle_coeffs st \<and>
     st_dihedral_coeffs st' = st_dihedral_coeffs st \<and>
     st_atoms_data st' = st_atoms_data st \<and>
     st_bonds_data st' = st_bonds_data st \<and>
     st_angles_data st' = st_angles_data st \<and>
     st_dihedral_data st' = st_dihedral_data st \<and>
     st_imdihedral_data st' = st_imdihedral_data st \<and>
     read_pair_coeffs st' = read_pair_coeffs st \<and>
     read_bond_coeffs st' = read_bond_coeffs st \<and>
     read_angle_coeffs st' = read_angle_coeffs st \<and>
     read_dihedral_coeffs st' = read_dihedral_coeffs st \<and>
     st_natom_types st' = st_natom_types st \<and>
     npair_types st' = npair_types st \<and>
     st_nbond_types st' = st_nbond_types st \<and>
     st_nangle_types st' = st_nangle_types st \<and>
     ndihedral_types st' = ndihedral_types st \<and>
     nimproper_types st' = nimproper_types st"
  using assms
  by (auto simp: read_improper_def Let_def split: if_splits dest!: ebind_Inr)

lemma read_atoms_frame:
  assumes "read_atoms fl st line = Inr st'"
  shows "st_atomic_masses st' = st_atomic_masses st \<and>
     st_box_size st' = st_box_size st \<and>
     st_pair_coeffs st' = st_pair_coeffs st \<and>
     st_bond_coeffs st' = st_bond_coeffs st \<and>
     st_angle_coeffs st' = st_angle_coeffs st \<and>
     st_dihedral_coeffs st' = st_dihedral_coeffs st \<and>
     st_improper_coeffs st' = st_improper_coeffs st \<and>
     st_bonds_data st' = st_bonds_data st \<and>
     st_angles_data st' = st_angles_data st \<and>
     st_dihedral_data st' = st_dihedral_data st \<and>
     st_imdihedral_data st' = st_imdihedral_data st \<and>
     read_pair_coeffs st' = read_pair_coeffs st \<and>
     read_bond_coeffs st' = read_bond_coeffs st \<and>
     read_angle_coeffs st' = read_angle_coeffs st \<and>
     read_dihedral_coeffs st' = read_dihedral_coeffs st \<and>
     read_improper_coeffs st' = read_improper_coeffs st \<and>
     st_natom_types st' = st_natom_types st \<and>
     npair_types st' = npair_types st \<and>
     st_nbond_types st' = st_nbond_types st \<and>
     st_nangle_types st' = st_nangle_types st \<and>
     ndihedral_types st' = ndihedral_types st \<and>
     nimproper_types st' = nimproper_types st"
  using assms
  by (auto simp: read_atoms_def split: option.splits dest!: ebind_Inr)

lemma read_bonded_frame:
  "st_atomic_masses (read_bonded st line) = st_atomic_masses st \<and>
   st_box_size (read_bonded st line) = st_box_size st \<and>
   st_pair_coeffs (read_bonded st line) = st_pair_coeffs st \<and>
   st_bond_coeffs (read_bonded st line) = st_bond_coeffs st \<and>
   st_angle_coeffs (read_bonded st line) = st_angle_coeffs st \<and>
   st_dihedral_coeffs (read_bonded st line) = st_dihedral_coeffs st \<and>
   st_improper_coeffs (read_bonded st line) = st_improper_coeffs st \<and>
   st_atoms_data (read_bonded st line) = st_atoms_data st \<and>
   st_imdihedral_data (read_bonded st line) = st_imdihedral_data st \<and>
   read_pair_coeffs (read_bonded st line) = read_pair_coeffs st \<and>
   read_bond_coeffs (read_bonded st line) = read_bond_coeffs st \<and>
   read_angle_coeffs (read_bonded st line) = read_angle_coeffs st \<and>
   read_dihedral_coeffs (read_bonded st line) = read_dihedral_coeffs st \<and>
   read_improper_coeffs (read_bonded st line) = read_improper_coeffs st \<and>
   st_natom_types (read_bonded st line) = st_natom_types st \<and>
   npair_types (read_bonded st line) = npair_types st \<and>
   st_nbond_types (read_bonded st line) = st_nbond_types st \<and>
   st_nangle_types (read_bonded st line) = st_nangle_types st \<and>
   ndihedral_types (read_bonded st line) = ndihedral_types st \<and>
   nimproper_types (read_bonded st line) = nimproper_types st"
  by (simp add: read_bonded_def Let_def split: option.splits)

subsection \<open>Lines of the shape of a row of masses\<close>

lemma split_acc_word:
  "\<forall>c \<in> set w. \<not> is_space c \<Longrightarrow> split_acc cur (w @ rest) = split_acc (cur @ w) rest"
  by (induction w arbitrary: cur) simp_all

lemma split_acc_spaces0:
  "spaces s \<Longrightarrow> split_acc [] (s @ rest) = split_acc [] rest"
  by (induction s) (simp_all add: spaces_def)

lemma split_acc_spaces:
  "spaces s \<Longrightarrow> s \<noteq> [] \<Longrightarrow> cur \<noteq> [] \<Longrightarrow> split_acc cur (s @ rest) = cur # split_acc [] rest"
  by (cases s) (simp_all add: spaces_def split_acc_spaces0 [unfolded spaces_def])

lemma split_acc_end:
  "line_end e \<Longrightarrow> cur \<noteq> [] \<Longrightarrow> split_acc cur e = [cur]"
  by (auto simp: line_end_def is_space_def)

lemma class_word:
  "no_space P \<Longrightarrow> g \<noteq> [] \<Longrightarrow> \<forall>c \<in> set g. P c \<Longrightarrow> word g"
  by (auto simp: word_def no_space_def)

lemma takeWhile_hd: "xs \<noteq> [] \<Longrightarrow> \<not> P (hd xs) \<Longrightarrow> takeWhile P xs = []"
  by (cases xs) simp_all

lemma re_group_sep_end:
  assumes "word w"
  shows "re_match (Group P # Many1 is_space # r) w = None"
proof -
  have t: "takeWhile is_space (dropWhile P w) = []"
  proof (cases "dropWhile P w = []")
    case True
    show ?thesis unfolding True by simp
  next
    case False
    show ?thesis
      using takeWhile_hd [of "dropWhile P w" is_space] False
        dropWhile_word_nonspace [OF assms False] by blast
  qed
  have m: "re_match (Many1 is_space # r) (dropWhile P w) = None"
    unfolding re_match.simps(3) t by simp
  show ?thesis unfolding re_match.simps(4) m by simp
qed

end
